theory Spec2Isabelle
  imports Complex_Main
begin

section \<open>Data model\<close>

text \<open>
  The housing-share listing service: \<^verbatim>\<open>src/controllers/housingShare.controller.js\<close>,
  its routes (\<^verbatim>\<open>src/routes/housingShare.routes.js\<close>) and its Mongoose schema
  (\<^verbatim>\<open>src/models/housingShare.model.js\<close>).

  A stored document keeps the schema fields the controller and the list query read or
  write. The free-text fields \<^verbatim>\<open>title\<close>, \<^verbatim>\<open>description\<close>, \<^verbatim>\<open>city\<close>,
  \<^verbatim>\<open>address\<close>, \<^verbatim>\<open>university\<close>, \<^verbatim>\<open>amenities\<close>, \<^verbatim>\<open>preferences.studyField\<close>
  and \<^verbatim>\<open>preferences.yearOfStudy\<close> are left out: no handler branches on them, and
  their validation chains are taken to pass. JavaScript numbers are rationals
  (\<^verbatim>\<open>NaN\<close> is the \<open>None\<close> of a conversion; the infinities are not modelled),
  ObjectIds are their hexadecimal strings.
\<close>

type_synonym oid = string
type_synonym path = string

record photo =
  url :: string
  publicId :: string

record share =
  sid :: oid
  student :: oid
  governorate :: string
  currentOccupants :: rat
  totalCapacity :: rat
  pricePerPerson :: rat
  photos :: "photo list"
  gender :: string
  status :: string
  createdAt :: nat
  updatedAt :: nat

text \<open>
  A request-body value is a number (a JSON body) or a string (a multipart form field, as
  multer produces them).
\<close>

datatype jsval = JNum rat | JStr string

text \<open>
  \<^verbatim>\<open>req.body.preferences\<close> is a JSON-encoded string or an object; of the object only
  its \<^verbatim>\<open>gender\<close> property is kept (\<open>None\<close>: the property is undefined).
\<close>

datatype prefs_in = PStr string | PObj "string option"

record req_body =
  b_student :: "string option"
  b_governorate :: "string option"
  b_currentOccupants :: "jsval option"
  b_totalCapacity :: "jsval option"
  b_pricePerPerson :: "jsval option"
  b_preferences :: "prefs_in option"
  b_status :: "string option"
  b_photos :: "photo list option"

text \<open>
  A request as a controller receives it: the authenticated caller
  (\<^verbatim>\<open>req.user.userId\<close>), \<^verbatim>\<open>req.params.id\<close>, the body, the temporary files multer
  wrote (\<^verbatim>\<open>req.files\<close>) and the errors the route's validation chains left for
  \<^verbatim>\<open>validationResult(req)\<close>, each a field path with its message.
\<close>

record request =
  userId :: oid
  param_id :: string
  body :: req_body
  files :: "path list"
  validation :: "(string \<times> string) list"

section \<open>External collaborators and effects\<close>

text \<open>
  The object store client (cloudinary), the ObjectId check of mongoose and the JavaScript
  built-ins the handlers call are parameters: \<open>cloud_upload\<close> gives the stored photo of a
  local file, or \<open>None\<close> when the upload rejects; \<open>cloud_destroy_ok\<close> tells whether the
  deletion of a public id resolves; \<open>JSON_parse\<close> gives the \<^verbatim>\<open>gender\<close> property of
  the parsed value, or \<open>None\<close> when \<^verbatim>\<open>JSON.parse\<close> throws.
\<close>

record env =
  cloud_upload :: "path \<Rightarrow> photo option"
  cloud_destroy_ok :: "string \<Rightarrow> bool"
  ObjectId_isValid :: "string \<Rightarrow> bool"
  JSON_parse :: "string \<Rightarrow> string option option"
  js_Number :: "string \<Rightarrow> rat option"
  js_parseInt :: "string \<Rightarrow> int option"
  isFloat_value :: "string \<Rightarrow> rat option"
  new_ObjectId :: "nat \<Rightarrow> oid"

text \<open>Every call that leaves the process is logged, in the order it is issued.\<close>

datatype call =
    Upload path
  | Destroy string
  | Unlink path
  | FindOne oid oid
  | Find
  | CountDocuments
  | Save oid
  | DeleteOne oid

record world =
  shares :: "share list"
  objects :: "string set"
  trace :: "call list"
  clock :: nat
  oid_counter :: nat

datatype error =
    AppError string nat "(string \<times> string) list"
  | SyntaxError
  | CloudinaryError string
  | MongooseValidationError "string list"
  | CastError string
  | MulterError

definition log_call :: "call list \<Rightarrow> world \<Rightarrow> world" where
  "log_call cs w = w\<lparr>trace := trace w @ cs\<rparr>"

section \<open>Media helpers\<close>

text \<open>
  \<^verbatim>\<open>handlePhotoUpload\<close>: the loop uploads one file after the other, pushes the result and
  unlinks the temporary file; a rejected upload throws out of the loop. \<open>upload_loop\<close> is
  the loop with \<^verbatim>\<open>photos\<close> as its accumulator.
\<close>

fun upload_loop :: "env \<Rightarrow> path list \<Rightarrow> photo list \<Rightarrow> world \<Rightarrow> world \<times> (error + photo list)" where
  "upload_loop e [] acc w = (w, Inr acc)"
| "upload_loop e (f # fs) acc w =
     (case cloud_upload e f of
        None \<Rightarrow> (log_call [Upload f] w, Inl (CloudinaryError f))
      | Some ph \<Rightarrow>
          upload_loop e fs (acc @ [ph])
            (log_call [Upload f, Unlink f] (w\<lparr>objects := insert (publicId ph) (objects w)\<rparr>)))"

definition handlePhotoUpload :: "env \<Rightarrow> path list \<Rightarrow> world \<Rightarrow> world \<times> (error + photo list)" where
  "handlePhotoUpload e fs w = upload_loop e fs [] w"

text \<open>\<^verbatim>\<open>deletePhotos\<close>: destroys the photos in order; a rejected destroy throws out of the loop.\<close>

fun deletePhotos :: "env \<Rightarrow> photo list \<Rightarrow> world \<Rightarrow> world \<times> (error + unit)" where
  "deletePhotos e [] w = (w, Inr ())"
| "deletePhotos e (p # ps) w =
     (if cloud_destroy_ok e (publicId p)
      then deletePhotos e ps (log_call [Destroy (publicId p)] (w\<lparr>objects := objects w - {publicId p}\<rparr>))
      else (log_call [Destroy (publicId p)] w, Inl (CloudinaryError (publicId p))))"

section \<open>Route validation chains\<close>

text \<open>
  The pieces of validator.js the chains use. \<open>int_literal\<close> is the value of a string
  that matches \<^verbatim>\<open>/^[-+]?[0-9]+$/\<close>, the pattern of \<^verbatim>\<open>isInt\<close>; \<open>trim\<close> strips white
  space at both ends.
\<close>

definition is_digit :: "char \<Rightarrow> bool" where
  "is_digit c = (48 \<le> (of_char c :: nat) \<and> (of_char c :: nat) \<le> 57)"

fun digits_value :: "nat \<Rightarrow> string \<Rightarrow> nat option" where
  "digits_value acc [] = Some acc"
| "digits_value acc (c # cs) =
     (if is_digit c then digits_value (10 * acc + (of_char c - 48)) cs else None)"

definition unsigned_literal :: "string \<Rightarrow> int option" where
  "unsigned_literal s = (if s = [] then None else map_option int (digits_value 0 s))"

definition int_literal :: "string \<Rightarrow> int option" where
  "int_literal s =
     (case s of
        [] \<Rightarrow> None
      | c # cs \<Rightarrow>
          if c = CHR ''-'' then map_option uminus (unsigned_literal cs)
          else if c = CHR ''+'' then unsigned_literal cs
          else unsigned_literal s)"

definition is_space :: "char \<Rightarrow> bool" where
  "is_space c = ((of_char c :: nat) \<in> {9, 10, 11, 12, 13, 32, 160})"

definition trim :: "string \<Rightarrow> string" where
  "trim s = rev (dropWhile is_space (rev (dropWhile is_space s)))"

text \<open>
  \<^verbatim>\<open>isInt({min})\<close> reads the value as a string: a number prints as an integer literal
  when it is one and its magnitude is below \<open>10\<^sup>2\<^sup>1\<close>, where JavaScript switches to
  the exponent form, which the pattern rejects.
  \<^verbatim>\<open>isFloat({min: 0})\<close> on a string is left to \<open>isFloat_value\<close>, the parsed value of
  a string in validator.js's float syntax.
\<close>

definition isInt :: "int \<Rightarrow> jsval option \<Rightarrow> bool" where
  "isInt m v =
     (case v of
        None \<Rightarrow> False
      | Some (JNum r) \<Rightarrow>
          of_int \<lfloor>r\<rfloor> = r \<and> \<bar>r\<bar> < 1000000000000000000000 \<and> of_int m \<le> r
      | Some (JStr s) \<Rightarrow> (case int_literal s of None \<Rightarrow> False | Some n \<Rightarrow> m \<le> n))"

definition isFloat_min0 :: "env \<Rightarrow> jsval option \<Rightarrow> bool" where
  "isFloat_min0 e v =
     (case v of
        None \<Rightarrow> False
      | Some (JNum r) \<Rightarrow> 0 \<le> r
      | Some (JStr s) \<Rightarrow> (case isFloat_value e s of None \<Rightarrow> False | Some r \<Rightarrow> 0 \<le> r))"

text \<open>
  JavaScript's \<^verbatim>\<open><=\<close> on two raw body values: two strings compare by code units,
  anything else after conversion to numbers, and a \<^verbatim>\<open>NaN\<close> (also of
  \<^verbatim>\<open>undefined\<close>) makes it false.
\<close>

fun str_le :: "string \<Rightarrow> string \<Rightarrow> bool" where
  "str_le [] t = True"
| "str_le (c # cs) [] = False"
| "str_le (c # cs) (d # ds) =
     (if (of_char c :: nat) < of_char d then True
      else if (of_char c :: nat) = of_char d then str_le cs ds
      else False)"

definition to_number :: "env \<Rightarrow> jsval option \<Rightarrow> rat option" where
  "to_number e v =
     (case v of None \<Rightarrow> None | Some (JNum r) \<Rightarrow> Some r | Some (JStr s) \<Rightarrow> js_Number e s)"

definition js_le :: "env \<Rightarrow> jsval option \<Rightarrow> jsval option \<Rightarrow> bool" where
  "js_le e a b =
     (case (a, b) of
        (Some (JStr s), Some (JStr t)) \<Rightarrow> str_le s t
      | _ \<Rightarrow>
          (case (to_number e a, to_number e b) of
             (Some x, Some y) \<Rightarrow> x \<le> y
           | _ \<Rightarrow> False))"

text \<open>
  \<^verbatim>\<open>validateCreateShare\<close>, chain by chain; every failing validator of a chain adds
  its error. The governorate list is the one the route file spells out (four entries).
  The chains of the free-text fields are not modelled (see the data model). The
  \<open>check_\<close> functions are the validators of a chain on its field.
\<close>

definition route_governorates :: "string list" where
  "route_governorates = [''Ariana'', ''B'' @ [CHR 0xE9] @ ''ja'', ''Ben Arous'', ''Bizerte'']"

definition genders :: "string list" where
  "genders = [''male'', ''female'', ''any'']"

definition check_governorate :: "string option \<Rightarrow> (string \<times> string) list" where
  "check_governorate g =
     (let s = (case g of None \<Rightarrow> [] | Some x \<Rightarrow> trim x) in
        (if s = [] then [(''governorate'', ''Invalid value'')] else []) @
        (if s \<in> set route_governorates then [] else [(''governorate'', ''Invalid governorate'')]))"

definition check_currentOccupants :: "jsval option \<Rightarrow> (string \<times> string) list" where
  "check_currentOccupants v =
     (if isInt 1 v then [] else [(''currentOccupants'', ''Current occupants must be at least 1'')])"

definition check_totalCapacity :: "env \<Rightarrow> jsval option \<Rightarrow> jsval option \<Rightarrow> (string \<times> string) list" where
  "check_totalCapacity e v occupants =
     (if isInt 2 v then [] else [(''totalCapacity'', ''Invalid value'')]) @
     (if js_le e v occupants
      then [(''totalCapacity'', ''Total capacity must be greater than current occupants'')]
      else [])"

definition check_pricePerPerson :: "env \<Rightarrow> jsval option \<Rightarrow> (string \<times> string) list" where
  "check_pricePerPerson e v =
     (if isFloat_min0 e v then [] else [(''pricePerPerson'', ''Price must be a positive number'')])"

text \<open>\<^verbatim>\<open>req.body.preferences?.gender\<close>, also the value the chain of \<^verbatim>\<open>preferences.gender\<close> selects.\<close>

definition gender_of :: "prefs_in option \<Rightarrow> string option" where
  "gender_of p = (case p of Some (PObj g) \<Rightarrow> g | _ \<Rightarrow> None)"

definition includes_gender :: "string option \<Rightarrow> bool" where
  "includes_gender g = (case g of None \<Rightarrow> False | Some x \<Rightarrow> x \<in> set genders)"

definition check_gender :: "prefs_in option \<Rightarrow> (string \<times> string) list" where
  "check_gender p =
     (if includes_gender (gender_of p) then [] else [(''preferences.gender'', ''Invalid gender preference'')])"

text \<open>
  The PUT route is declared with
  \<^verbatim>\<open>...validateCreateShare.map(validation => validation.optional())\<close>, and
  \<^verbatim>\<open>.optional()\<close> marks the chain object it is called on. Once the module has loaded,
  the chains of \<^verbatim>\<open>validateCreateShare\<close> themselves, which the POST route runs, skip a
  field that is undefined.
\<close>

definition validateCreateShare :: "env \<Rightarrow> req_body \<Rightarrow> (string \<times> string) list" where
  "validateCreateShare e b =
     (if b_governorate b = None then [] else check_governorate (b_governorate b)) @
     (if b_currentOccupants b = None then [] else check_currentOccupants (b_currentOccupants b)) @
     (if b_totalCapacity b = None then []
      else check_totalCapacity e (b_totalCapacity b) (b_currentOccupants b)) @
     (if b_pricePerPerson b = None then [] else check_pricePerPerson e (b_pricePerPerson b)) @
     (if gender_of (b_preferences b) = None then [] else check_gender (b_preferences b))"

text \<open>The sanitizer of the chains: \<^verbatim>\<open>.trim()\<close> rewrites the field in the body.\<close>

definition sanitize_fields :: "req_body \<Rightarrow> req_body" where
  "sanitize_fields b = b\<lparr>b_governorate := map_option trim (b_governorate b)\<rparr>"

text \<open>
  The chains of the PUT route: \<^verbatim>\<open>param('id').isMongoId()\<close> and the chains of
  \<^verbatim>\<open>validateCreateShare\<close>.
\<close>

definition is_hex :: "char \<Rightarrow> bool" where
  "is_hex c =
     (is_digit c \<or> (65 \<le> (of_char c :: nat) \<and> (of_char c :: nat) \<le> 70)
        \<or> (97 \<le> (of_char c :: nat) \<and> (of_char c :: nat) \<le> 102))"

definition isMongoId :: "string \<Rightarrow> bool" where
  "isMongoId s = (length s = 24 \<and> list_all is_hex s)"

definition validateUpdateShare :: "env \<Rightarrow> string \<Rightarrow> req_body \<Rightarrow> (string \<times> string) list" where
  "validateUpdateShare e i b =
     (if isMongoId i then [] else [(''id'', ''Invalid value'')]) @ validateCreateShare e b"

section \<open>The Mongoose model\<close>

text \<open>
  \<^verbatim>\<open>housingShareSchema\<close>: a document in memory is the list of paths whose cast failed
  together with the typed fields. Setting a path casts the value (\<open>cast_number\<close> is
  mongoose's number cast: the empty string is null, other strings go through
  \<^verbatim>\<open>Number\<close>, \<^verbatim>\<open>NaN\<close> is a cast error); a failed cast keeps the old value and is
  reported by \<^verbatim>\<open>save\<close>.
\<close>

definition TUNISIAN_GOVERNORATES :: "string list" where
  "TUNISIAN_GOVERNORATES =
     [''Ariana'', ''B'' @ [CHR 0xE9] @ ''ja'', ''Ben Arous'', ''Bizerte'',
      ''Gab'' @ [CHR 0xE8] @ ''s'', ''Gafsa'', ''Jendouba'', ''Kairouan'', ''Kasserine'',
      ''K'' @ [CHR 0xE9] @ ''bili'', ''Kef'', ''Mahdia'', ''Manouba'',
      ''M'' @ [CHR 0xE9] @ ''denine'', ''Monastir'', ''Nabeul'', ''Sfax'', ''Sidi Bouzid'',
      ''Siliana'', ''Sousse'', ''Tataouine'', ''Tozeur'', ''Tunis'', ''Zaghouan'']"

definition statuses :: "string list" where
  "statuses = [''available'', ''full'', ''closed'']"

type_synonym doc = "string list \<times> share"

definition cast_number :: "env \<Rightarrow> jsval \<Rightarrow> rat option" where
  "cast_number e v = (case v of JNum r \<Rightarrow> Some r | JStr s \<Rightarrow> if s = [] then None else js_Number e s)"

definition set_number :: "env \<Rightarrow> string \<Rightarrow> (rat \<Rightarrow> share \<Rightarrow> share) \<Rightarrow> jsval option \<Rightarrow> doc \<Rightarrow> doc" where
  "set_number e name upd v d =
     (case v of
        None \<Rightarrow> d
      | Some x \<Rightarrow>
          (case cast_number e x of
             None \<Rightarrow> (fst d @ [name], snd d)
           | Some r \<Rightarrow> (fst d, upd r (snd d))))"

definition set_student :: "env \<Rightarrow> string option \<Rightarrow> doc \<Rightarrow> doc" where
  "set_student e v d =
     (case v of
        None \<Rightarrow> d
      | Some u \<Rightarrow>
          if ObjectId_isValid e u then (fst d, (snd d)\<lparr>student := u\<rparr>)
          else (fst d @ [''student''], snd d))"

definition set_string :: "(string \<Rightarrow> share \<Rightarrow> share) \<Rightarrow> string option \<Rightarrow> doc \<Rightarrow> doc" where
  "set_string upd v d = (case v of None \<Rightarrow> d | Some x \<Rightarrow> (fst d, upd x (snd d)))"

definition set_preferences :: "prefs_in option \<Rightarrow> doc \<Rightarrow> doc" where
  "set_preferences v d =
     (case v of
        None \<Rightarrow> d
      | Some (PStr s) \<Rightarrow> (fst d @ [''preferences''], snd d)
      | Some (PObj None) \<Rightarrow> (fst d @ [''preferences.gender''], snd d)
      | Some (PObj (Some g)) \<Rightarrow> (fst d, (snd d)\<lparr>gender := g\<rparr>))"

definition set_photos :: "photo list option \<Rightarrow> doc \<Rightarrow> doc" where
  "set_photos v d = (case v of None \<Rightarrow> d | Some ps \<Rightarrow> (fst d, (snd d)\<lparr>photos := ps\<rparr>))"

text \<open>\<^verbatim>\<open>Object.assign(share, req.body)\<close>, and the constructor on a fresh document.\<close>

definition assign :: "env \<Rightarrow> req_body \<Rightarrow> doc \<Rightarrow> doc" where
  "assign e b d =
     set_photos (b_photos b)
       (set_string (\<lambda>x s. s\<lparr>status := x\<rparr>) (b_status b)
         (set_preferences (b_preferences b)
           (set_number e ''pricePerPerson'' (\<lambda>r s. s\<lparr>pricePerPerson := r\<rparr>) (b_pricePerPerson b)
             (set_number e ''totalCapacity'' (\<lambda>r s. s\<lparr>totalCapacity := r\<rparr>) (b_totalCapacity b)
               (set_number e ''currentOccupants'' (\<lambda>r s. s\<lparr>currentOccupants := r\<rparr>) (b_currentOccupants b)
                 (set_string (\<lambda>x s. s\<lparr>governorate := x\<rparr>) (b_governorate b)
                   (set_student e (b_student b) d)))))))"

text \<open>
  The schema's validators (\<^verbatim>\<open>enum\<close>, \<^verbatim>\<open>min\<close>) on the typed fields, and the
  \<^verbatim>\<open>required\<close> paths a new document lacks when the body leaves them undefined.
  \<^verbatim>\<open>save\<close> validates the required paths, the loaded ones and the modified ones: on
  a new document and on a loaded one alike, every path below.
\<close>

definition schema_errors :: "share \<Rightarrow> string list" where
  "schema_errors s =
     (if governorate s \<in> set TUNISIAN_GOVERNORATES then [] else [''governorate'']) @
     (if 1 \<le> currentOccupants s then [] else [''currentOccupants'']) @
     (if 2 \<le> totalCapacity s then [] else [''totalCapacity'']) @
     (if gender s \<in> set genders then [] else [''preferences.gender'']) @
     (if status s \<in> set statuses then [] else [''status''])"

definition missing_required :: "req_body \<Rightarrow> string list" where
  "missing_required b =
     (if b_student b = None then [''student''] else []) @
     (if b_governorate b = None then [''governorate''] else []) @
     (if b_currentOccupants b = None then [''currentOccupants''] else []) @
     (if b_totalCapacity b = None then [''totalCapacity''] else []) @
     (if b_pricePerPerson b = None then [''pricePerPerson''] else []) @
     (if b_preferences b = None then [''preferences.gender''] else [])"

definition blank_share :: "env \<Rightarrow> world \<Rightarrow> share" where
  "blank_share e w =
     \<lparr>sid = new_ObjectId e (oid_counter w), student = [], governorate = [],
      currentOccupants = 0, totalCapacity = 0, pricePerPerson = 0, photos = [],
      gender = [], status = ''available'', createdAt = clock w, updatedAt = clock w\<rparr>"

definition new_HousingShare :: "env \<Rightarrow> world \<Rightarrow> req_body \<Rightarrow> doc" where
  "new_HousingShare e w b =
     (let d = assign e b ([], blank_share e w) in (missing_required b @ fst d, snd d))"

text \<open>
  \<^verbatim>\<open>save()\<close> validates first and rejects without a write; otherwise a new document is
  inserted and an existing one is replaced under its \<^verbatim>\<open>_id\<close>, which the collection
  keeps unique. The record store itself is
  taken to answer every call: a \<^verbatim>\<open>save\<close> fails by validation only.
\<close>

definition save_new :: "doc \<Rightarrow> world \<Rightarrow> world \<times> (error + share)" where
  "save_new d w =
     (let errs = fst d @ schema_errors (snd d) in
        if errs \<noteq> [] then (w, Inl (MongooseValidationError errs))
        else (log_call [Save (sid (snd d))]
                (w\<lparr>shares := shares w @ [snd d], oid_counter := Suc (oid_counter w)\<rparr>),
              Inr (snd d)))"

definition save_existing :: "doc \<Rightarrow> world \<Rightarrow> world \<times> (error + share)" where
  "save_existing d w =
     (let errs = fst d @ schema_errors (snd d) in
        if errs \<noteq> [] then (w, Inl (MongooseValidationError errs))
        else (log_call [Save (sid (snd d))]
                (w\<lparr>shares := map (\<lambda>x. if sid x = sid (snd d) then snd d else x) (shares w)\<rparr>),
              Inr (snd d)))"

text \<open>
  \<^verbatim>\<open>HousingShare.findOne({_id: id, student: userId})\<close> on a filter that casts. Mongoose
  casts the filter before it queries; the handlers below check \<^verbatim>\<open>id\<close> themselves,
  and a caller id that is no ObjectId is their cast error.
\<close>

definition findOne :: "oid \<Rightarrow> oid \<Rightarrow> world \<Rightarrow> share option" where
  "findOne i u w = find (\<lambda>s. sid s = i \<and> student s = u) (shares w)"

section \<open>Controller\<close>

text \<open>
  A handler takes the world and returns it with the error it passes to \<^verbatim>\<open>next\<close> or
  the response it sends. The logger calls are left out, and so is \<^verbatim>\<open>sanitize\<close>:
  mongo-sanitize deletes the keys that begin with \<^verbatim>\<open>$\<close>, and the bodies and queries
  here have none.
\<close>

record page_result =
  items :: "share list"
  total :: nat
  pages :: nat
  currentPage :: int

datatype response =
    Created share
  | OkShare share
  | OkObject "(string \<times> string) list"
  | OkPage page_result

definition validationResult :: "request \<Rightarrow> (string \<times> string) list" where
  "validationResult req = validation req"

text \<open>
  \<^verbatim>\<open>if (typeof req.body.preferences === 'string') req.body.preferences = JSON.parse(...)\<close>.
\<close>

definition parse_preferences :: "env \<Rightarrow> prefs_in option \<Rightarrow> error + prefs_in option" where
  "parse_preferences e p =
     (case p of
        Some (PStr s) \<Rightarrow>
          (case JSON_parse e s of None \<Rightarrow> Inl SyntaxError | Some g \<Rightarrow> Inr (Some (PObj g)))
      | _ \<Rightarrow> Inr p)"

definition createHousingShare :: "env \<Rightarrow> request \<Rightarrow> world \<Rightarrow> world \<times> (error + response)" where
  "createHousingShare e req w =
     (if validationResult req \<noteq> [] then (w, Inl (AppError ''Validation error'' 400 (validationResult req)))
      else
        (case parse_preferences e (b_preferences (body req)) of
           Inl err \<Rightarrow> (w, Inl err)
         | Inr prefs \<Rightarrow>
             if \<not> includes_gender (gender_of prefs)
             then (w, Inl (AppError ''Invalid gender preference'' 400 []))
             else
               (case (if files req \<noteq> [] then handlePhotoUpload e (files req) w else (w, Inr [])) of
                  (w1, Inl err) \<Rightarrow> (w1, Inl err)
                | (w1, Inr phs) \<Rightarrow>
                    (case save_new
                            (new_HousingShare e w1
                               ((body req)\<lparr>b_preferences := prefs, b_student := Some (userId req),
                                            b_photos := Some phs\<rparr>)) w1 of
                       (w2, Inl err) \<Rightarrow> (w2, Inl err)
                     | (w2, Inr s) \<Rightarrow> (w2, Inr (Created s))))))"

text \<open>
  The photo step of an update, inside its own \<^verbatim>\<open>try\<close>: the photos of the stored
  record are destroyed, then the new files are uploaded.
\<close>

definition replace_photos :: "env \<Rightarrow> share \<Rightarrow> path list \<Rightarrow> world \<Rightarrow> world \<times> (error + photo list)" where
  "replace_photos e sh fs w =
     (case deletePhotos e (photos sh) w of
        (w1, Inl err) \<Rightarrow> (w1, Inl err)
      | (w1, Inr u) \<Rightarrow> handlePhotoUpload e fs w1)"

text \<open>
  \<^verbatim>\<open>if (req.body.preferences) { ... }\<close>: an object is truthy, a string unless empty.
\<close>

definition truthy_preferences :: "prefs_in option \<Rightarrow> bool" where
  "truthy_preferences p = (case p of None \<Rightarrow> False | Some (PStr s) \<Rightarrow> s \<noteq> [] | Some (PObj g) \<Rightarrow> True)"

definition validate_preferences :: "env \<Rightarrow> req_body \<Rightarrow> error + req_body" where
  "validate_preferences e b =
     (if truthy_preferences (b_preferences b)
      then
        (case parse_preferences e (b_preferences b) of
           Inl err \<Rightarrow> Inl err
         | Inr prefs \<Rightarrow>
             if \<not> includes_gender (gender_of prefs)
             then Inl (AppError ''Invalid gender preference'' 400 [])
             else Inr (b\<lparr>b_preferences := prefs\<rparr>))
      else Inr b)"

definition updateHousingShare :: "env \<Rightarrow> request \<Rightarrow> world \<Rightarrow> world \<times> (error + response)" where
  "updateHousingShare e req w =
     (if \<not> ObjectId_isValid e (param_id req)
      then (w, Inl (AppError ''Invalid housing share ID'' 400 []))
      else if \<not> ObjectId_isValid e (userId req) then (w, Inl (CastError ''student''))
      else
        (let w1 = log_call [FindOne (param_id req) (userId req)] w in
           case findOne (param_id req) (userId req) w1 of
             None \<Rightarrow> (w1, Inl (AppError ''Housing share not found or unauthorized'' 404 []))
           | Some sh \<Rightarrow>
               (case (if files req \<noteq> []
                      then (case replace_photos e sh (files req) w1 of
                              (w2, Inl err) \<Rightarrow> (w2, Inl (AppError ''Error processing photos'' 500 []))
                            | (w2, Inr phs) \<Rightarrow> (w2, Inr ((body req)\<lparr>b_photos := Some phs\<rparr>)))
                      else (w1, Inr (body req))) of
                  (w2, Inl err) \<Rightarrow> (w2, Inl err)
                | (w2, Inr b1) \<Rightarrow>
                    (case validate_preferences e b1 of
                       Inl err \<Rightarrow> (w2, Inl err)
                     | Inr b2 \<Rightarrow>
                         (case save_existing
                                 (let d = assign e b2 ([], sh) in (fst d, (snd d)\<lparr>updatedAt := clock w2\<rparr>))
                                 w2 of
                            (w3, Inl err) \<Rightarrow> (w3, Inl err)
                          | (w3, Inr s) \<Rightarrow> (w3, Inr (OkShare s)))))))"

text \<open>
  \<^verbatim>\<open>deleteHousingShare\<close>: the error of \<^verbatim>\<open>deletePhotos\<close> is caught and logged, then
  \<^verbatim>\<open>share.deleteOne()\<close> removes the document of that \<^verbatim>\<open>_id\<close>.
\<close>

definition deleted_response :: "(string \<times> string) list" where
  "deleted_response =
     [(''status'', ''success''), (''message'', ''Housing share deleted successfully'')]"

definition deleteHousingShare :: "env \<Rightarrow> request \<Rightarrow> world \<Rightarrow> world \<times> (error + response)" where
  "deleteHousingShare e req w =
     (if \<not> ObjectId_isValid e (param_id req)
      then (w, Inl (AppError ''Invalid housing share ID'' 400 []))
      else if \<not> ObjectId_isValid e (userId req) then (w, Inl (CastError ''student''))
      else
        (let w1 = log_call [FindOne (param_id req) (userId req)] w in
           case findOne (param_id req) (userId req) w1 of
             None \<Rightarrow> (w1, Inl (AppError ''Housing share not found or unauthorized'' 404 []))
           | Some sh \<Rightarrow>
               (let w2 = fst (deletePhotos e (photos sh) w1);
                    w3 = log_call [DeleteOne (sid sh)]
                           (w2\<lparr>shares := filter (\<lambda>s. sid s \<noteq> sid sh) (shares w2)\<rparr>)
                in (w3, Inr (OkObject deleted_response)))))"

subsection \<open>Listing\<close>

text \<open>
  The query string of \<^verbatim>\<open>GET /housing-shares\<close>: every parameter is a string or
  undefined. \<^verbatim>\<open>parseInt(x) || d\<close> takes the default for \<^verbatim>\<open>NaN\<close> and for 0.
\<close>

record list_query =
  q_governorate :: "string option"
  q_minPrice :: "string option"
  q_maxPrice :: "string option"
  q_status :: "string option"
  q_gender :: "string option"
  q_page :: "string option"
  q_limit :: "string option"

definition parseInt_or :: "env \<Rightarrow> string option \<Rightarrow> int \<Rightarrow> int" where
  "parseInt_or e v d =
     (case v of
        None \<Rightarrow> d
      | Some s \<Rightarrow> (case js_parseInt e s of None \<Rightarrow> d | Some n \<Rightarrow> if n = 0 then d else n))"

definition validatePagination :: "env \<Rightarrow> string option \<Rightarrow> string option \<Rightarrow> int \<times> int" where
  "validatePagination e page limit =
     (let page1 = parseInt_or e page 1;
          limit1 = parseInt_or e limit 10;
          page2 = (if page1 < 1 then 1 else page1);
          limit2 = (if limit1 < 1 \<or> limit1 > 100 then 10 else limit1)
      in (page2, limit2))"

text \<open>
  The filter object. A price bound is absent, or the result of \<^verbatim>\<open>Number(...)\<close>, where
  \<open>Some None\<close> is \<^verbatim>\<open>NaN\<close>: mongoose rejects such a filter with a cast error before
  it queries.
\<close>

record mongo_query =
  m_governorate :: "string option"
  m_status :: "string option"
  m_gender :: "string option"
  m_gte :: "rat option option"
  m_lte :: "rat option option"

definition truthy :: "string option \<Rightarrow> bool" where
  "truthy v = (case v of None \<Rightarrow> False | Some s \<Rightarrow> s \<noteq> [])"

definition number_of_param :: "env \<Rightarrow> string option \<Rightarrow> rat option option" where
  "number_of_param e v =
     (case v of None \<Rightarrow> None | Some s \<Rightarrow> if s = [] then None else Some (js_Number e s))"

definition build_query :: "env \<Rightarrow> list_query \<Rightarrow> mongo_query" where
  "build_query e q =
     \<lparr>m_governorate = (if truthy (q_governorate q) then q_governorate q else None),
      m_status = (if truthy (q_status q) then q_status q else None),
      m_gender = (if truthy (q_gender q) then q_gender q else None),
      m_gte = (if truthy (q_minPrice q) \<or> truthy (q_maxPrice q)
               then number_of_param e (q_minPrice q) else None),
      m_lte = (if truthy (q_minPrice q) \<or> truthy (q_maxPrice q)
               then number_of_param e (q_maxPrice q) else None)\<rparr>"

definition query_cast_error :: "mongo_query \<Rightarrow> bool" where
  "query_cast_error m = (m_gte m = Some None \<or> m_lte m = Some None)"

definition matches :: "mongo_query \<Rightarrow> share \<Rightarrow> bool" where
  "matches m s =
     ((case m_governorate m of None \<Rightarrow> True | Some g \<Rightarrow> governorate s = g) \<and>
      (case m_status m of None \<Rightarrow> True | Some x \<Rightarrow> status s = x) \<and>
      (case m_gender m of None \<Rightarrow> True | Some x \<Rightarrow> gender s = x) \<and>
      (case m_gte m of Some (Some r) \<Rightarrow> r \<le> pricePerPerson s | _ \<Rightarrow> True) \<and>
      (case m_lte m of Some (Some r) \<Rightarrow> pricePerPerson s \<le> r | _ \<Rightarrow> True))"

text \<open>
  \<^verbatim>\<open>getHousingShares\<close>: the page of the matching documents, newest first, and their
  count. \<^verbatim>\<open>populate\<close> is not modelled: it changes how the owner is shown, not which
  documents are returned.
\<close>

definition getHousingShares :: "env \<Rightarrow> list_query \<Rightarrow> world \<Rightarrow> world \<times> (error + response)" where
  "getHousingShares e q w =
     (let page = fst (validatePagination e (q_page q) (q_limit q));
          limit = snd (validatePagination e (q_page q) (q_limit q));
          m = build_query e q
      in if query_cast_error m then (w, Inl (CastError ''pricePerPerson''))
         else
           (let found = filter (matches m) (shares w) in
              (log_call [Find, CountDocuments] w,
               Inr (OkPage
                 \<lparr>items = take (nat limit) (drop (nat ((page - 1) * limit))
                            (sort_key (\<lambda>s. - int (createdAt s)) found)),
                  total = length found,
                  pages = nat \<lceil>(of_nat (length found) :: rat) / of_int limit\<rceil>,
                  currentPage = page\<rparr>))))"

section \<open>Routes\<close>

text \<open>
  What the middleware of each route does between authentication and the controller:
  multer accepts at most five files, the validation chains sanitize the body and leave
  their errors on the request. The chains of the GET route only validate, so its
  controller is the route. Authentication, the role check and the rate limiter come
  before and are not modelled.
\<close>

definition max_files :: nat where
  "max_files = 5"

definition post_route :: "env \<Rightarrow> request \<Rightarrow> world \<Rightarrow> world \<times> (error + response)" where
  "post_route e req w =
     (if length (files req) > max_files then (w, Inl MulterError)
      else
        createHousingShare e
          (req\<lparr>body := sanitize_fields (body req),
                validation := validateCreateShare e (body req)\<rparr>) w)"

definition put_route :: "env \<Rightarrow> request \<Rightarrow> world \<Rightarrow> world \<times> (error + response)" where
  "put_route e req w =
     (if length (files req) > max_files then (w, Inl MulterError)
      else
        updateHousingShare e
          (req\<lparr>body := sanitize_fields (body req),
                validation := validateUpdateShare e (param_id req) (body req)\<rparr>) w)"

text \<open>
  The custom validator of the \<^verbatim>\<open>maxPrice\<close> chain: it throws when \<^verbatim>\<open>minPrice\<close> is
  given and \<^verbatim>\<open>Number(value) <= Number(req.query.minPrice)\<close>.
\<close>

definition maxPrice_custom_throws :: "env \<Rightarrow> list_query \<Rightarrow> bool" where
  "maxPrice_custom_throws e q =
     (case (q_maxPrice q, q_minPrice q) of
        (Some v, Some lo) \<Rightarrow>
          lo \<noteq> [] \<and>
          (case (js_Number e v, js_Number e lo) of
             (Some x, Some y) \<Rightarrow> x \<le> y
           | _ \<Rightarrow> False)
      | _ \<Rightarrow> False)"

section \<open>Vocabulary of the properties\<close>

text \<open>
  What a batch leaves behind: the photos and public ids of the files whose upload
  resolves, the calls of a run of successful uploads, the public ids \<^verbatim>\<open>deletePhotos\<close>
  calls destroy on (up to and including the first that rejects), and those it destroys.
\<close>

definition stored_photos :: "env \<Rightarrow> path list \<Rightarrow> photo list" where
  "stored_photos e fs = List.map_filter (cloud_upload e) fs"

definition stored_ids :: "env \<Rightarrow> path list \<Rightarrow> string list" where
  "stored_ids e fs = map publicId (stored_photos e fs)"

definition upload_calls :: "path list \<Rightarrow> call list" where
  "upload_calls fs = concat (map (\<lambda>f. [Upload f, Unlink f]) fs)"

fun attempted :: "env \<Rightarrow> photo list \<Rightarrow> string list" where
  "attempted e [] = []"
| "attempted e (p # ps) =
     publicId p # (if cloud_destroy_ok e (publicId p) then attempted e ps else [])"

definition destroyed :: "env \<Rightarrow> photo list \<Rightarrow> string list" where
  "destroyed e ps = map publicId (takeWhile (\<lambda>p. cloud_destroy_ok e (publicId p)) ps)"

text \<open>
  The same for the upload loop when an upload may reject: the files uploaded before the
  first upload that rejects, and the calls of the loop, which stops at that upload.
  \<open>all_destroyed\<close> and \<open>all_uploaded\<close> say that nothing rejects.
\<close>

definition uploaded_prefix :: "env \<Rightarrow> path list \<Rightarrow> path list" where
  "uploaded_prefix e fs = takeWhile (\<lambda>f. cloud_upload e f \<noteq> None) fs"

fun upload_attempts :: "env \<Rightarrow> path list \<Rightarrow> call list" where
  "upload_attempts e [] = []"
| "upload_attempts e (f # fs) =
     (if cloud_upload e f = None then [Upload f]
      else Upload f # Unlink f # upload_attempts e fs)"

definition all_destroyed :: "env \<Rightarrow> photo list \<Rightarrow> bool" where
  "all_destroyed e ps = list_all (\<lambda>p. cloud_destroy_ok e (publicId p)) ps"

definition all_uploaded :: "env \<Rightarrow> path list \<Rightarrow> bool" where
  "all_uploaded e fs = list_all (\<lambda>f. cloud_upload e f \<noteq> None) fs"

text \<open>The listing is absent, or it belongs to somebody else.\<close>

definition not_owned :: "oid \<Rightarrow> oid \<Rightarrow> world \<Rightarrow> bool" where
  "not_owned i u w = (\<forall>s \<in> set (shares w). sid s = i \<longrightarrow> student s \<noteq> u)"

text \<open>What \<^verbatim>\<open>parseInt\<close> makes of a query parameter; \<open>None\<close> is \<^verbatim>\<open>NaN\<close>.\<close>

definition parsed :: "env \<Rightarrow> string option \<Rightarrow> int option" where
  "parsed e v = (case v of None \<Rightarrow> None | Some s \<Rightarrow> js_parseInt e s)"

section \<open>Sample collaborators and requests\<close>

text \<open>
  A concrete run-time for the examples: two files upload, every other upload rejects;
  every destroy resolves; an ObjectId is 24 hexadecimal digits; \<^verbatim>\<open>Number\<close>,
  \<^verbatim>\<open>parseInt\<close> and the float syntax are those of JavaScript on the integer literals
  the examples use.
\<close>

definition decimal_Number :: "string \<Rightarrow> rat option" where
  "decimal_Number s = (if s = [] then Some 0 else map_option of_int (int_literal s))"

definition sample_env :: env where
  "sample_env =
     \<lparr>cloud_upload =
        (\<lambda>f. if f = ''uploads/a'' then Some \<lparr>url = ''https://cdn/new1'', publicId = ''new1''\<rparr>
             else if f = ''uploads/c'' then Some \<lparr>url = ''https://cdn/new2'', publicId = ''new2''\<rparr>
             else None),
      cloud_destroy_ok = (\<lambda>p. True),
      ObjectId_isValid = isMongoId,
      JSON_parse = (\<lambda>s. None),
      js_Number = decimal_Number,
      js_parseInt = int_literal,
      isFloat_value = (\<lambda>s. map_option of_int (int_literal s)),
      new_ObjectId = (\<lambda>n. ''c0ffee000000000000000000'')\<rparr>"

text \<open>The same, but the object store rejects the deletion of \<^verbatim>\<open>old2\<close>.\<close>

definition failing_env :: env where
  "failing_env = sample_env\<lparr>cloud_destroy_ok := (\<lambda>p. p \<noteq> ''old2'')\<rparr>"

definition alice :: oid where
  "alice = ''aaaaaaaaaaaaaaaaaaaaaaaa''"

definition bob :: oid where
  "bob = ''bbbbbbbbbbbbbbbbbbbbbbbb''"

definition listing_A :: share where
  "listing_A =
     \<lparr>sid = ''111111111111111111111111'', student = alice, governorate = ''Tunis'',
      currentOccupants = 2, totalCapacity = 4, pricePerPerson = 300,
      photos = [\<lparr>url = ''https://cdn/old1'', publicId = ''old1''\<rparr>,
                \<lparr>url = ''https://cdn/old2'', publicId = ''old2''\<rparr>],
      gender = ''any'', status = ''available'', createdAt = 1, updatedAt = 1\<rparr>"

definition empty_world :: world where
  "empty_world = \<lparr>shares = [], objects = {}, trace = [], clock = 5, oid_counter = 0\<rparr>"

definition world_A :: world where
  "world_A =
     \<lparr>shares = [listing_A], objects = {''old1'', ''old2''}, trace = [], clock = 9,
      oid_counter = 1\<rparr>"

definition blank_body :: req_body where
  "blank_body =
     \<lparr>b_student = None, b_governorate = None, b_currentOccupants = None,
      b_totalCapacity = None, b_pricePerPerson = None, b_preferences = None,
      b_status = None, b_photos = None\<rparr>"

text \<open>A request of \<open>u\<close> on listing A with the given body and files.\<close>

definition request_on_A :: "oid \<Rightarrow> req_body \<Rightarrow> path list \<Rightarrow> request" where
  "request_on_A u b fs =
     \<lparr>userId = u, param_id = ''111111111111111111111111'', body = b, files = fs,
      validation = []\<rparr>"

text \<open>A complete body for a new listing; it names Bob as the owner.\<close>

definition new_listing_body :: req_body where
  "new_listing_body =
     \<lparr>b_student = Some bob, b_governorate = Some ''Ariana'',
      b_currentOccupants = Some (JNum 2), b_totalCapacity = Some (JNum 4),
      b_pricePerPerson = Some (JNum 300), b_preferences = Some (PObj (Some ''any'')),
      b_status = None, b_photos = None\<rparr>"

definition create_request :: request where
  "create_request =
     \<lparr>userId = alice, param_id = [], body = new_listing_body,
      files = [''uploads/a'', ''uploads/c''], validation = []\<rparr>"

definition no_filter :: list_query where
  "no_filter =
     \<lparr>q_governorate = None, q_minPrice = None, q_maxPrice = None, q_status = None,
      q_gender = None, q_page = None, q_limit = None\<rparr>"

section \<open>The upload and delete loops\<close>

lemma diff_single_then: "A - {x} - B = A - insert x B"
  by blast

lemma upload_loop_fails:
  "\<forall>g\<in>set pre. cloud_upload e g \<noteq> None \<Longrightarrow> cloud_upload e f = None \<Longrightarrow>
   upload_loop e (pre @ f # post) acc w =
     (w\<lparr>objects := objects w \<union> set (stored_ids e pre),
        trace := trace w @ upload_calls pre @ [Upload f]\<rparr>,
      Inl (CloudinaryError f))"
proof (induction pre arbitrary: acc w)
  case Nil
  then show ?case
    by (simp add: stored_ids_def stored_photos_def upload_calls_def log_call_def
        List.map_filter_simps)
next
  case (Cons g pre)
  then obtain ph where ph: "cloud_upload e g = Some ph" by auto
  have rest: "\<forall>g\<in>set pre. cloud_upload e g \<noteq> None" using Cons.prems by simp
  show ?case
    using Cons.IH [OF rest Cons.prems(2)] ph
    by (simp add: stored_ids_def stored_photos_def upload_calls_def log_call_def
        List.map_filter_simps)
qed

lemma upload_loop_succeeds:
  "\<forall>g\<in>set fs. cloud_upload e g \<noteq> None \<Longrightarrow>
   upload_loop e fs acc w =
     (w\<lparr>objects := objects w \<union> set (stored_ids e fs),
        trace := trace w @ upload_calls fs\<rparr>,
      Inr (acc @ stored_photos e fs))"
proof (induction fs arbitrary: acc w)
  case Nil
  then show ?case
    by (simp add: stored_ids_def stored_photos_def upload_calls_def List.map_filter_simps)
next
  case (Cons g fs)
  then obtain ph where ph: "cloud_upload e g = Some ph" by auto
  have rest: "\<forall>g\<in>set fs. cloud_upload e g \<noteq> None" using Cons.prems by simp
  show ?case
    using Cons.IH [OF rest] ph
    by (simp add: stored_ids_def stored_photos_def upload_calls_def log_call_def
        List.map_filter_simps)
qed

lemma deletePhotos_world:
  "fst (deletePhotos e ps w) =
     w\<lparr>objects := objects w - set (destroyed e ps),
       trace := trace w @ map Destroy (attempted e ps)\<rparr>"
proof (induction ps arbitrary: w)
  case Nil
  then show ?case by (simp add: destroyed_def)
next
  case (Cons p ps)
  show ?case
  proof (cases "cloud_destroy_ok e (publicId p)")
    case True
    then show ?thesis
      using Cons.IH by (simp add: destroyed_def log_call_def diff_single_then)
  next
    case False
    then show ?thesis by (simp add: destroyed_def log_call_def)
  qed
qed

lemma deletePhotos_succeeds:
  "\<forall>p\<in>set ps. cloud_destroy_ok e (publicId p) \<Longrightarrow>
   deletePhotos e ps w =
     (w\<lparr>objects := objects w - publicId ` set ps,
        trace := trace w @ map (\<lambda>p. Destroy (publicId p)) ps\<rparr>,
      Inr ())"
proof (induction ps arbitrary: w)
  case Nil
  then show ?case by simp
next
  case (Cons p ps)
  then show ?case by (simp add: log_call_def diff_single_then)
qed

lemma sample_upload_a:
  "cloud_upload sample_env ''uploads/a'' = Some \<lparr>url = ''https://cdn/new1'', publicId = ''new1''\<rparr>"
  by (simp add: sample_env_def)

lemma sample_upload_b: "cloud_upload sample_env ''uploads/b'' = None"
  by (simp add: sample_env_def)

lemma sample_upload_c:
  "cloud_upload sample_env ''uploads/c'' = Some \<lparr>url = ''https://cdn/new2'', publicId = ''new2''\<rparr>"
  by (simp add: sample_env_def)

section \<open>Attach: a failed upload\<close>

text \<open>
  C1 (as amended). When the uploads of the files before file \<open>f\<close> resolve and the upload
  of \<open>f\<close> rejects, \<^verbatim>\<open>handlePhotoUpload\<close> ends with that single error and nothing is
  rolled back: the objects uploaded so far in the batch are added to the object store
  and stay there, no destroy call is issued, and the files after \<open>f\<close> are not touched.
\<close>

theorem attach_failure_leaves_uploaded_objects:
  assumes "\<forall>g\<in>set pre. cloud_upload e g \<noteq> None" and "cloud_upload e f = None"
  shows "handlePhotoUpload e (pre @ f # post) w =
           (w\<lparr>objects := objects w \<union> set (stored_ids e pre),
              trace := trace w @ upload_calls pre @ [Upload f]\<rparr>,
            Inl (CloudinaryError f))"
  unfolding handlePhotoUpload_def using assms by (rule upload_loop_fails)

theorem attach_failure_leaves_uploaded_objects_witness:
  "handlePhotoUpload sample_env [''uploads/a'', ''uploads/b'', ''uploads/c''] empty_world =
     (empty_world\<lparr>objects := {''new1''},
                  trace := [Upload ''uploads/a'', Unlink ''uploads/a'', Upload ''uploads/b'']\<rparr>,
      Inl (CloudinaryError ''uploads/b''))"
proof -
  have pre: "\<forall>g\<in>set [''uploads/a'']. cloud_upload sample_env g \<noteq> None"
    by (simp add: sample_upload_a)
  show ?thesis
    using attach_failure_leaves_uploaded_objects
      [OF pre sample_upload_b, of "[''uploads/c'']" empty_world]
    by (simp add: stored_ids_def stored_photos_def upload_calls_def empty_world_def
        List.map_filter_simps sample_upload_a)
qed

text \<open>
  The claim as stated fails: with two files of which the second is rejected, the object
  store, empty before the call, holds the first upload after it.
\<close>

theorem attach_rollback_counterexample:
  "snd (handlePhotoUpload sample_env [''uploads/a'', ''uploads/b''] empty_world) =
     Inl (CloudinaryError ''uploads/b'') \<and>
   objects empty_world = {} \<and>
   objects (fst (handlePhotoUpload sample_env [''uploads/a'', ''uploads/b''] empty_world)) =
     {''new1''} \<and>
   trace (fst (handlePhotoUpload sample_env [''uploads/a'', ''uploads/b''] empty_world)) =
     [Upload ''uploads/a'', Unlink ''uploads/a'', Upload ''uploads/b'']"
  by (simp add: handlePhotoUpload_def sample_env_def empty_world_def log_call_def)

text \<open>
  In \<^verbatim>\<open>createHousingShare\<close> the rejection leaves the handler as it is: no record is
  saved, and the objects uploaded before it stay.
\<close>

lemma create_upload_failure:
  assumes "validation req = []"
      and "parse_preferences e (b_preferences (body req)) = Inr prefs"
      and "includes_gender (gender_of prefs)"
      and "files req = pre @ f # post"
      and "\<forall>g\<in>set pre. cloud_upload e g \<noteq> None" and "cloud_upload e f = None"
  shows "createHousingShare e req w =
           (w\<lparr>objects := objects w \<union> set (stored_ids e pre),
              trace := trace w @ upload_calls pre @ [Upload f]\<rparr>,
            Inl (CloudinaryError f))"
  using assms
  by (simp add: createHousingShare_def validationResult_def handlePhotoUpload_def
      upload_loop_fails)

section \<open>Update\<close>

lemma findOne_log_call: "findOne i u (log_call cs w) = findOne i u w"
  by (simp add: findOne_def log_call_def)

lemma findOne_sid: "findOne i u w = Some sh \<Longrightarrow> sid sh = i \<and> student sh = u \<and> sh \<in> set (shares w)"
  by (auto simp: findOne_def find_Some_iff)

lemma set_number_sid:
  "(\<And>r s. sid (upd r s) = sid s) \<Longrightarrow> sid (snd (set_number e n upd v d)) = sid (snd d)"
  by (simp add: set_number_def split: option.splits)

lemma set_string_sid:
  "(\<And>x s. sid (upd x s) = sid s) \<Longrightarrow> sid (snd (set_string upd v d)) = sid (snd d)"
  by (simp add: set_string_def split: option.splits)

lemma set_student_sid: "sid (snd (set_student e v d)) = sid (snd d)"
  by (simp add: set_student_def split: option.splits)

lemma set_preferences_sid: "sid (snd (set_preferences v d)) = sid (snd d)"
  by (simp add: set_preferences_def split: option.splits prefs_in.splits)

lemma set_photos_sid: "sid (snd (set_photos v d)) = sid (snd d)"
  by (simp add: set_photos_def split: option.splits)

lemma assign_sid: "sid (snd (assign e b d)) = sid (snd d)"
  by (simp add: assign_def set_number_sid set_string_sid set_student_sid
      set_preferences_sid set_photos_sid)

lemma replace_photos_succeeds:
  assumes "\<forall>p\<in>set (photos sh). cloud_destroy_ok e (publicId p)"
      and "\<forall>f\<in>set fs. cloud_upload e f \<noteq> None"
  shows "replace_photos e sh fs w =
           (w\<lparr>objects := (objects w - publicId ` set (photos sh)) \<union> set (stored_ids e fs),
              trace := trace w @ map (\<lambda>p. Destroy (publicId p)) (photos sh) @ upload_calls fs\<rparr>,
            Inr (stored_photos e fs))"
  by (simp add: replace_photos_def handlePhotoUpload_def
      deletePhotos_succeeds [OF assms(1)] upload_loop_succeeds [OF assms(2)])

lemma save_existing_cases:
  "save_existing d w = (w', r) \<Longrightarrow>
     (\<exists>errs. r = Inl (MongooseValidationError errs) \<and> w' = w) \<or>
     (r = Inr (snd d) \<and>
      w' = w\<lparr>shares := map (\<lambda>x. if sid x = sid (snd d) then snd d else x) (shares w),
             trace := trace w @ [Save (sid (snd d))]\<rparr>)"
  by (auto simp: save_existing_def Let_def log_call_def split: if_splits)

lemma assign_photos: "b_photos b = Some ps \<Longrightarrow> photos (snd (assign e b d)) = ps"
  by (simp add: assign_def set_photos_def)

lemma validate_preferences_photos:
  "validate_preferences e b = Inr b2 \<Longrightarrow> b_photos b2 = b_photos b"
  by (auto simp: validate_preferences_def split: if_splits sum.splits)

lemma sample_ids_valid:
  "ObjectId_isValid sample_env ''111111111111111111111111''"
  "ObjectId_isValid sample_env alice" "ObjectId_isValid sample_env bob"
  by (simp_all add: sample_env_def isMongoId_def is_hex_def is_digit_def alice_def bob_def)

lemma findOne_alice_A: "findOne ''111111111111111111111111'' alice world_A = Some listing_A"
  by (simp add: findOne_def world_A_def listing_A_def)

lemma sample_update_run:
  "updateHousingShare sample_env (request_on_A alice blank_body [''uploads/a'', ''uploads/c'']) world_A =
   (world_A\<lparr>shares := [listing_A\<lparr>photos := [\<lparr>url = ''https://cdn/new1'', publicId = ''new1''\<rparr>,
                                                 \<lparr>url = ''https://cdn/new2'', publicId = ''new2''\<rparr>],
                                     updatedAt := 9\<rparr>],
            objects := {''new1'', ''new2''},
            trace := [FindOne ''111111111111111111111111'' alice, Destroy ''old1'',
                      Destroy ''old2'', Upload ''uploads/a'', Unlink ''uploads/a'',
                      Upload ''uploads/c'', Unlink ''uploads/c'',
                      Save ''111111111111111111111111'']\<rparr>,
    Inr (OkShare (listing_A\<lparr>photos := [\<lparr>url = ''https://cdn/new1'', publicId = ''new1''\<rparr>,
                                         \<lparr>url = ''https://cdn/new2'', publicId = ''new2''\<rparr>],
                             updatedAt := 9\<rparr>)))"
  apply (simp add: updateHousingShare_def request_on_A_def sample_ids_valid Let_def
      findOne_log_call findOne_alice_A)
  apply (simp add: replace_photos_def handlePhotoUpload_def listing_A_def sample_env_def log_call_def
      world_A_def blank_body_def validate_preferences_def truthy_preferences_def)
  apply (simp add: save_existing_def assign_def set_photos_def set_string_def set_preferences_def
      set_number_def set_student_def cast_number_def schema_errors_def Let_def
      TUNISIAN_GOVERNORATES_def genders_def statuses_def log_call_def)
  apply auto
  done

lemma listing_A_photos:
  "photos listing_A = [\<lparr>url = ''https://cdn/old1'', publicId = ''old1''\<rparr>,
                       \<lparr>url = ''https://cdn/old2'', publicId = ''old2''\<rparr>]"
  by (simp add: listing_A_def)

lemma failing_ids_valid:
  "ObjectId_isValid failing_env ''111111111111111111111111''"
  "ObjectId_isValid failing_env alice"
  using sample_ids_valid(1,2) by (simp_all add: failing_env_def)

text \<open>
  The photo step of an update in general: what it leaves behind and how it ends.
\<close>

lemma upload_loop_world:
  "fst (upload_loop e fs acc w) =
     w\<lparr>objects := objects w \<union> set (stored_ids e (uploaded_prefix e fs)),
       trace := trace w @ upload_attempts e fs\<rparr>"
proof (induction fs arbitrary: acc w)
  case Nil
  then show ?case
    by (simp add: stored_ids_def stored_photos_def uploaded_prefix_def List.map_filter_simps)
next
  case (Cons f fs)
  show ?case
  proof (cases "cloud_upload e f")
    case None
    then show ?thesis
      by (simp add: stored_ids_def stored_photos_def uploaded_prefix_def log_call_def
          List.map_filter_simps)
  next
    case (Some ph)
    then show ?thesis
      using Cons.IH
      by (simp add: stored_ids_def stored_photos_def uploaded_prefix_def log_call_def
          List.map_filter_simps)
  qed
qed

lemma upload_loop_rejects:
  "\<not> all_uploaded e fs \<Longrightarrow> \<exists>err. snd (upload_loop e fs acc w) = Inl err"
proof (induction fs arbitrary: acc w)
  case Nil
  then show ?case by (simp add: all_uploaded_def)
next
  case (Cons f fs)
  show ?case
  proof (cases "cloud_upload e f")
    case None
    then show ?thesis by simp
  next
    case (Some ph)
    then have "\<not> all_uploaded e fs" using Cons.prems by (simp add: all_uploaded_def)
    then show ?thesis using Cons.IH Some by simp
  qed
qed

lemma upload_loop_resolves:
  "all_uploaded e fs \<Longrightarrow> snd (upload_loop e fs acc w) = Inr (acc @ stored_photos e fs)"
  using upload_loop_succeeds [of fs e acc w] by (simp add: all_uploaded_def list_all_iff)

lemma deletePhotos_rejects:
  "\<not> all_destroyed e ps \<Longrightarrow> \<exists>err. snd (deletePhotos e ps w) = Inl err"
proof (induction ps arbitrary: w)
  case Nil
  then show ?case by (simp add: all_destroyed_def)
next
  case (Cons p ps)
  show ?case
  proof (cases "cloud_destroy_ok e (publicId p)")
    case True
    then have "\<not> all_destroyed e ps" using Cons.prems by (simp add: all_destroyed_def)
    then show ?thesis using Cons.IH True by simp
  next
    case False
    then show ?thesis by simp
  qed
qed

lemma deletePhotos_resolves:
  "all_destroyed e ps \<Longrightarrow> snd (deletePhotos e ps w) = Inr ()"
  using deletePhotos_succeeds [of ps e w] by (simp add: all_destroyed_def list_all_iff)

lemma all_uploaded_calls:
  "all_uploaded e fs \<Longrightarrow> upload_attempts e fs = upload_calls fs \<and> uploaded_prefix e fs = fs"
  by (induction fs) (simp_all add: all_uploaded_def upload_calls_def uploaded_prefix_def)

lemma all_destroyed_calls:
  "all_destroyed e ps \<Longrightarrow>
   attempted e ps = map publicId ps \<and> destroyed e ps = map publicId ps"
  by (induction ps) (simp_all add: all_destroyed_def destroyed_def)

lemma replace_photos_after_destroys:
  "all_destroyed e (photos sh) \<Longrightarrow>
   replace_photos e sh fs w = upload_loop e fs [] (fst (deletePhotos e (photos sh) w))"
  using deletePhotos_resolves [of e "photos sh" w]
  by (cases "deletePhotos e (photos sh) w") (simp add: replace_photos_def handlePhotoUpload_def)

lemma replace_photos_after_rejection:
  "snd (deletePhotos e (photos sh) w) = Inl err \<Longrightarrow>
   replace_photos e sh fs w = (fst (deletePhotos e (photos sh) w), Inl err)"
  by (cases "deletePhotos e (photos sh) w") (simp add: replace_photos_def)

lemma replace_photos_world:
  "fst (replace_photos e sh fs w) =
     w\<lparr>objects :=
         (objects w - set (destroyed e (photos sh))) \<union>
         (if all_destroyed e (photos sh) then set (stored_ids e (uploaded_prefix e fs)) else {}),
       trace :=
         trace w @ map Destroy (attempted e (photos sh)) @
         (if all_destroyed e (photos sh) then upload_attempts e fs else [])\<rparr>"
proof (cases "all_destroyed e (photos sh)")
  case True
  then show ?thesis
    by (simp add: replace_photos_after_destroys upload_loop_world deletePhotos_world)
next
  case False
  then obtain err where "snd (deletePhotos e (photos sh) w) = Inl err"
    using deletePhotos_rejects by blast
  then show ?thesis
    using False by (simp add: replace_photos_after_rejection deletePhotos_world)
qed

lemma replace_photos_rejects:
  assumes "\<not> (all_destroyed e (photos sh) \<and> all_uploaded e fs)"
  shows "\<exists>err. snd (replace_photos e sh fs w) = Inl err"
proof (cases "all_destroyed e (photos sh)")
  case True
  then have up: "\<not> all_uploaded e fs" using assms by simp
  show ?thesis
    using upload_loop_rejects [OF up] by (simp add: replace_photos_after_destroys [OF True])
next
  case False
  then obtain err where "snd (deletePhotos e (photos sh) w) = Inl err"
    using deletePhotos_rejects by blast
  then show ?thesis by (simp add: replace_photos_after_rejection)
qed

lemma replace_photos_resolves:
  assumes "all_destroyed e (photos sh)" and "all_uploaded e fs"
  shows "snd (replace_photos e sh fs w) = Inr (stored_photos e fs)"
  using upload_loop_resolves [OF assms(2), of "[]"]
  by (simp add: replace_photos_after_destroys [OF assms(1)])

text \<open>
  C2 (as amended). An update that supplies new files, by the owner of an existing listing.
  The calls come in this order: the lookup; the destroys of the stored photos, up to the
  first that rejects; only when every destroy resolved, the uploads of the new files, up
  to the first that rejects; and the save last, only when the handler succeeds. When a
  destroy or an upload rejects, the handler ends with the 500 error
  \<^verbatim>\<open>Error processing photos\<close>. Whenever the handler fails, in the photo step or after
  it (the preferences are rejected or \<^verbatim>\<open>save\<close> does not validate), the stored records
  are untouched and nothing is rolled back: the photos destroyed so far are gone and the
  files uploaded so far stay in the object store. When it succeeds, every destroy and
  upload has resolved and the saved record carries the new photos.
\<close>

theorem update_replaces_media_before_commit:
  assumes run: "updateHousingShare e req w = (w', r)"
      and valid: "ObjectId_isValid e (param_id req)" "ObjectId_isValid e (userId req)"
      and found: "findOne (param_id req) (userId req) w = Some sh"
      and files: "files req \<noteq> []"
  shows "trace w' =
           trace w @ [FindOne (param_id req) (userId req)] @
           map Destroy (attempted e (photos sh)) @
           (if all_destroyed e (photos sh) then upload_attempts e (files req) else []) @
           (case r of Inl err \<Rightarrow> [] | Inr resp \<Rightarrow> [Save (param_id req)]) \<and>
         objects w' =
           (objects w - set (destroyed e (photos sh))) \<union>
           (if all_destroyed e (photos sh)
            then set (stored_ids e (uploaded_prefix e (files req))) else {}) \<and>
         (\<not> (all_destroyed e (photos sh) \<and> all_uploaded e (files req)) \<longrightarrow>
            r = Inl (AppError ''Error processing photos'' 500 [])) \<and>
         (case r of
            Inl err \<Rightarrow> shares w' = shares w
          | Inr resp \<Rightarrow>
              all_destroyed e (photos sh) \<and> all_uploaded e (files req) \<and>
              (\<exists>s. resp = OkShare s \<and> photos s = stored_photos e (files req) \<and>
                   shares w' = map (\<lambda>x. if sid x = param_id req then s else x) (shares w)))"
proof -
  let ?w1 = "log_call [FindOne (param_id req) (userId req)] w"
  obtain w2 rp where step: "replace_photos e sh (files req) ?w1 = (w2, rp)"
    by (cases "replace_photos e sh (files req) ?w1")
  have w2: "w2 = fst (replace_photos e sh (files req) ?w1)"
    and rp: "rp = snd (replace_photos e sh (files req) ?w1)"
    by (simp_all add: step)
  have sid: "sid sh = param_id req" using findOne_sid [OF found] by simp
  have sh2: "shares w2 = shares w"
    unfolding w2 by (simp add: replace_photos_world log_call_def)
  have tr2: "trace w2 =
      trace w @ [FindOne (param_id req) (userId req)] @
      map Destroy (attempted e (photos sh)) @
      (if all_destroyed e (photos sh) then upload_attempts e (files req) else [])"
    unfolding w2 by (simp add: replace_photos_world log_call_def)
  have ob2: "objects w2 =
      (objects w - set (destroyed e (photos sh))) \<union>
      (if all_destroyed e (photos sh)
       then set (stored_ids e (uploaded_prefix e (files req))) else {})"
    unfolding w2 by (simp add: replace_photos_world log_call_def)
  show ?thesis
  proof (cases "all_destroyed e (photos sh) \<and> all_uploaded e (files req)")
    case False
    then obtain err where "rp = Inl err"
      using replace_photos_rejects [of e sh "files req" ?w1] rp by auto
    then have "w' = w2 \<and> r = Inl (AppError ''Error processing photos'' 500 [])"
      using run valid found files step
      by (simp add: updateHousingShare_def Let_def findOne_log_call)
    then show ?thesis using False sh2 tr2 ob2 by simp
  next
    case True
    let ?b1 = "(body req)\<lparr>b_photos := Some (stored_photos e (files req))\<rparr>"
    have "rp = Inr (stored_photos e (files req))"
      using True replace_photos_resolves [of e sh "files req" ?w1] rp by simp
    then have step2: "replace_photos e sh (files req) ?w1 = (w2, Inr (stored_photos e (files req)))"
      using step by simp
    show ?thesis
    proof (cases "validate_preferences e ?b1")
      case (Inl err)
      then have "w' = w2 \<and> r = Inl err"
        using run valid found files step2
        by (simp add: updateHousingShare_def Let_def findOne_log_call)
      then show ?thesis using True sh2 tr2 ob2 by simp
    next
      case (Inr b2)
      let ?d = "(let d = assign e b2 ([], sh) in (fst d, (snd d)\<lparr>updatedAt := clock w2\<rparr>))"
      obtain w3 r3 where sv: "save_existing ?d w2 = (w3, r3)"
        by (cases "save_existing ?d w2")
      have res: "w' = w3 \<and> r = (case r3 of Inl err \<Rightarrow> Inl err | Inr s \<Rightarrow> Inr (OkShare s))"
        using run valid found files step2 Inr sv
        by (auto simp: updateHousingShare_def Let_def findOne_log_call split: sum.splits)
      have dsid: "sid (snd ?d) = param_id req"
        using sid assign_sid [of e b2 "([], sh)"] by (simp add: Let_def)
      from save_existing_cases [OF sv] show ?thesis
      proof
        assume "\<exists>errs. r3 = Inl (MongooseValidationError errs) \<and> w3 = w2"
        then show ?thesis using res True sh2 tr2 ob2 by auto
      next
        assume ok: "r3 = Inr (snd ?d) \<and>
          w3 = w2\<lparr>shares := map (\<lambda>x. if sid x = sid (snd ?d) then snd ?d else x) (shares w2),
                 trace := trace w2 @ [Save (sid (snd ?d))]\<rparr>"
        have ph: "photos (snd ?d) = stored_photos e (files req)"
          using assign_photos [of b2 "stored_photos e (files req)" e "([], sh)"]
            validate_preferences_photos [OF Inr]
          by (simp add: Let_def)
        show ?thesis
          using ok res dsid ph sh2 tr2 ob2 True by simp
      qed
    qed
  qed
qed

theorem update_replaces_media_before_commit_witness:
  "trace (fst (updateHousingShare sample_env
       (request_on_A alice blank_body [''uploads/a'', ''uploads/c'']) world_A)) =
     [FindOne ''111111111111111111111111'' alice, Destroy ''old1'', Destroy ''old2'',
      Upload ''uploads/a'', Unlink ''uploads/a'', Upload ''uploads/c'', Unlink ''uploads/c'',
      Save ''111111111111111111111111''] \<and>
   objects (fst (updateHousingShare sample_env
       (request_on_A alice blank_body [''uploads/a'', ''uploads/c'']) world_A)) =
     {''new1'', ''new2''} \<and>
   snd (updateHousingShare failing_env (request_on_A alice blank_body [''uploads/a'']) world_A) =
     Inl (AppError ''Error processing photos'' 500 []) \<and>
   trace (fst (updateHousingShare failing_env
       (request_on_A alice blank_body [''uploads/a'']) world_A)) =
     [FindOne ''111111111111111111111111'' alice, Destroy ''old1'', Destroy ''old2''] \<and>
   objects (fst (updateHousingShare failing_env
       (request_on_A alice blank_body [''uploads/a'']) world_A)) = {''old2''} \<and>
   shares (fst (updateHousingShare failing_env
       (request_on_A alice blank_body [''uploads/a'']) world_A)) = [listing_A] \<and>
   snd (updateHousingShare sample_env (request_on_A alice blank_body [''uploads/b'']) world_A) =
     Inl (AppError ''Error processing photos'' 500 []) \<and>
   trace (fst (updateHousingShare sample_env
       (request_on_A alice blank_body [''uploads/b'']) world_A)) =
     [FindOne ''111111111111111111111111'' alice, Destroy ''old1'', Destroy ''old2'',
      Upload ''uploads/b''] \<and>
   objects (fst (updateHousingShare sample_env
       (request_on_A alice blank_body [''uploads/b'']) world_A)) = {} \<and>
   shares (fst (updateHousingShare sample_env
       (request_on_A alice blank_body [''uploads/b'']) world_A)) = [listing_A]"
proof -
  have found: "\<And>fs. findOne (param_id (request_on_A alice blank_body fs))
      (userId (request_on_A alice blank_body fs)) world_A = Some listing_A"
    by (simp add: request_on_A_def findOne_alice_A)
  have world: "trace world_A = [] \<and> shares world_A = [listing_A] \<and>
      objects world_A = {''old1'', ''old2''}"
    by (simp add: world_A_def)
  \<comment> \<open>every destroy and every upload resolves, and the record is saved\<close>
  let ?ok = "request_on_A alice blank_body [''uploads/a'', ''uploads/c'']"
  have ok_valid: "ObjectId_isValid sample_env (param_id ?ok)"
    "ObjectId_isValid sample_env (userId ?ok)"
    by (simp_all add: request_on_A_def sample_ids_valid)
  have ok_files: "files ?ok \<noteq> []" by (simp add: request_on_A_def)
  have saved: "trace (fst (updateHousingShare sample_env ?ok world_A)) =
     [FindOne ''111111111111111111111111'' alice, Destroy ''old1'', Destroy ''old2'',
      Upload ''uploads/a'', Unlink ''uploads/a'', Upload ''uploads/c'', Unlink ''uploads/c'',
      Save ''111111111111111111111111''] \<and>
     objects (fst (updateHousingShare sample_env ?ok world_A)) = {''new1'', ''new2''}"
    using update_replaces_media_before_commit [OF sample_update_run ok_valid found ok_files]
    by (simp add: sample_update_run)
  \<comment> \<open>the second destroy rejects\<close>
  let ?d = "request_on_A alice blank_body [''uploads/a'']"
  let ?D = "updateHousingShare failing_env ?d world_A"
  have d_valid: "ObjectId_isValid failing_env (param_id ?d)"
    "ObjectId_isValid failing_env (userId ?d)"
    by (simp_all add: request_on_A_def failing_ids_valid)
  have d_files: "files ?d \<noteq> []" by (simp add: request_on_A_def)
  have d_ids: "param_id ?d = ''111111111111111111111111''" "userId ?d = alice"
    by (simp_all add: request_on_A_def)
  have d_run: "?D = (fst ?D, snd ?D)" by simp
  have d_not: "\<not> all_destroyed failing_env (photos listing_A)"
    by (simp add: all_destroyed_def listing_A_photos failing_env_def)
  have d_att: "attempted failing_env (photos listing_A) = [''old1'', ''old2'']"
    by (simp add: listing_A_photos failing_env_def)
  have d_des: "destroyed failing_env (photos listing_A) = [''old1'']"
    by (simp add: listing_A_photos failing_env_def destroyed_def)
  note d_thm = update_replaces_media_before_commit [OF d_run d_valid found d_files]
  have d_res: "snd ?D = Inl (AppError ''Error processing photos'' 500 [])"
    using d_thm d_not by blast
  have d_trace: "trace (fst ?D) =
      [FindOne ''111111111111111111111111'' alice, Destroy ''old1'', Destroy ''old2'']"
    using d_thm d_not by (simp add: d_res d_att d_ids world)
  have d_objects: "objects (fst ?D) = {''old2''}"
    using d_thm d_not by (auto simp: d_des world)
  have d_shares: "shares (fst ?D) = [listing_A]"
    using d_thm by (simp add: d_res world)
  \<comment> \<open>the destroys resolve and the upload rejects\<close>
  let ?u = "request_on_A alice blank_body [''uploads/b'']"
  let ?U = "updateHousingShare sample_env ?u world_A"
  have u_valid: "ObjectId_isValid sample_env (param_id ?u)"
    "ObjectId_isValid sample_env (userId ?u)"
    by (simp_all add: request_on_A_def sample_ids_valid)
  have u_files: "files ?u \<noteq> []" "files ?u = [''uploads/b'']"
    by (simp_all add: request_on_A_def)
  have u_ids: "param_id ?u = ''111111111111111111111111''" "userId ?u = alice"
    by (simp_all add: request_on_A_def)
  have u_run: "?U = (fst ?U, snd ?U)" by simp
  have u_all: "all_destroyed sample_env (photos listing_A)"
    by (simp add: all_destroyed_def listing_A_photos sample_env_def)
  have u_not: "\<not> all_uploaded sample_env [''uploads/b'']"
    by (simp add: all_uploaded_def sample_upload_b)
  have u_att: "attempted sample_env (photos listing_A) = [''old1'', ''old2'']"
    by (simp add: listing_A_photos sample_env_def)
  have u_des: "destroyed sample_env (photos listing_A) = [''old1'', ''old2'']"
    by (simp add: listing_A_photos sample_env_def destroyed_def)
  have u_calls: "upload_attempts sample_env [''uploads/b''] = [Upload ''uploads/b'']"
    "stored_ids sample_env (uploaded_prefix sample_env [''uploads/b'']) = []"
    by (simp_all add: sample_upload_b uploaded_prefix_def stored_ids_def stored_photos_def
        List.map_filter_simps)
  note u_thm = update_replaces_media_before_commit [OF u_run u_valid found u_files(1)]
  have u_res: "snd ?U = Inl (AppError ''Error processing photos'' 500 [])"
    using u_thm u_not by (simp add: u_files(2))
  have u_trace: "trace (fst ?U) =
      [FindOne ''111111111111111111111111'' alice, Destroy ''old1'', Destroy ''old2'',
       Upload ''uploads/b'']"
    using u_thm u_all
    by (simp add: u_res u_att u_calls u_files(2) u_ids world sample_upload_b)
  have u_objects: "objects (fst ?U) = {}"
    using u_thm u_all by (simp add: u_des u_calls u_files(2) world sample_upload_b)
  have u_shares: "shares (fst ?U) = [listing_A]"
    using u_thm by (simp add: u_res world)
  show ?thesis
    using saved d_res d_trace d_objects d_shares u_res u_trace u_objects u_shares
    by blast
qed

text \<open>
  The claim as stated fails: the owner replaces the photos of listing A and sets
  \<^verbatim>\<open>totalCapacity\<close> to 1, which the schema rejects. The old photos were destroyed
  before the commit was tried, and the new upload is not rolled back.
\<close>

theorem update_commit_failure_counterexample:
  "updateHousingShare sample_env
     (request_on_A alice (blank_body\<lparr>b_totalCapacity := Some (JNum 1)\<rparr>) [''uploads/a'']) world_A =
   (world_A\<lparr>objects := {''new1''},
            trace := [FindOne ''111111111111111111111111'' alice, Destroy ''old1'',
                      Destroy ''old2'', Upload ''uploads/a'', Unlink ''uploads/a'']\<rparr>,
    Inl (MongooseValidationError [''totalCapacity'']))"
  apply (simp add: updateHousingShare_def request_on_A_def sample_ids_valid Let_def
      findOne_log_call findOne_alice_A)
  apply (simp add: replace_photos_def handlePhotoUpload_def listing_A_def sample_env_def log_call_def
      world_A_def blank_body_def validate_preferences_def truthy_preferences_def)
  apply (simp add: save_existing_def assign_def set_photos_def set_string_def set_preferences_def
      set_number_def set_student_def cast_number_def schema_errors_def Let_def
      TUNISIAN_GOVERNORATES_def genders_def statuses_def)
  done

section \<open>Delete\<close>

text \<open>
  C5 (as amended). A delete by the owner of an existing listing: the media is released
  first, photo by photo up to the first destroy that rejects (the error is caught and
  logged, the photos after it are not tried), and the record is removed afterwards. The
  record is gone whatever the object store did, and the caller receives the plain
  success object, whose only keys are \<^verbatim>\<open>status\<close> and \<^verbatim>\<open>message\<close>: no warning
  list.
\<close>

theorem delete_releases_media_then_removes_record:
  assumes valid: "ObjectId_isValid e (param_id req)" "ObjectId_isValid e (userId req)"
      and found: "findOne (param_id req) (userId req) w = Some sh"
  shows "deleteHousingShare e req w =
           (w\<lparr>shares := filter (\<lambda>s. sid s \<noteq> param_id req) (shares w),
              objects := objects w - set (destroyed e (photos sh)),
              trace := trace w @ [FindOne (param_id req) (userId req)] @
                       map Destroy (attempted e (photos sh)) @ [DeleteOne (param_id req)]\<rparr>,
            Inr (OkObject deleted_response)) \<and>
         (\<forall>s \<in> set (shares (fst (deleteHousingShare e req w))). sid s \<noteq> param_id req) \<and>
         map fst deleted_response = [''status'', ''message'']"
proof -
  let ?w1 = "log_call [FindOne (param_id req) (userId req)] w"
  have sid: "sid sh = param_id req" using findOne_sid [OF found] by simp
  have w2: "fst (deletePhotos e (photos sh) ?w1) =
              ?w1\<lparr>objects := objects ?w1 - set (destroyed e (photos sh)),
                   trace := trace ?w1 @ map Destroy (attempted e (photos sh))\<rparr>"
    by (rule deletePhotos_world)
  have run: "deleteHousingShare e req w =
           (w\<lparr>shares := filter (\<lambda>s. sid s \<noteq> param_id req) (shares w),
              objects := objects w - set (destroyed e (photos sh)),
              trace := trace w @ [FindOne (param_id req) (userId req)] @
                       map Destroy (attempted e (photos sh)) @ [DeleteOne (param_id req)]\<rparr>,
            Inr (OkObject deleted_response))"
    using valid found sid
    by (simp add: deleteHousingShare_def Let_def findOne_log_call w2) (simp add: log_call_def)
  show ?thesis
    by (simp add: run deleted_response_def)
qed

theorem delete_releases_media_then_removes_record_witness:
  "deleteHousingShare failing_env (request_on_A alice blank_body []) world_A =
     (world_A\<lparr>shares := [], objects := {''old2''},
              trace := [FindOne ''111111111111111111111111'' alice, Destroy ''old1'',
                        Destroy ''old2'', DeleteOne ''111111111111111111111111'']\<rparr>,
      Inr (OkObject deleted_response))"
proof -
  let ?req = "request_on_A alice blank_body []"
  have valid: "ObjectId_isValid failing_env (param_id ?req)"
    "ObjectId_isValid failing_env (userId ?req)"
    by (simp_all add: request_on_A_def failing_ids_valid)
  have found: "findOne (param_id ?req) (userId ?req) world_A = Some listing_A"
    by (simp add: request_on_A_def findOne_alice_A)
  have att: "attempted failing_env (photos listing_A) = [''old1'', ''old2'']"
    by (simp add: listing_A_photos failing_env_def)
  have des: "destroyed failing_env (photos listing_A) = [''old1'']"
    by (simp add: listing_A_photos failing_env_def destroyed_def)
  have shs: "filter (\<lambda>s. sid s \<noteq> ''111111111111111111111111'') (shares world_A) = []"
    by (simp add: world_A_def listing_A_def)
  have obs: "objects world_A - {''old1''} = {''old2''}"
    by (auto simp: world_A_def)
  have tr: "trace world_A = []" by (simp add: world_A_def)
  show ?thesis
    using delete_releases_media_then_removes_record [OF valid found]
    by (simp add: att des request_on_A_def shs obs tr)
qed

text \<open>
  The claim as stated fails: on listing A, when the object store rejects the deletion of
  the second photo, both destroy calls precede the removal of the record, and the
  response carries no warning list.
\<close>

theorem delete_warning_list_counterexample:
  "snd (deleteHousingShare failing_env (request_on_A alice blank_body []) world_A) =
     Inr (OkObject [(''status'', ''success''), (''message'', ''Housing share deleted successfully'')]) \<and>
   trace (fst (deleteHousingShare failing_env (request_on_A alice blank_body []) world_A)) =
     [FindOne ''111111111111111111111111'' alice, Destroy ''old1'', Destroy ''old2'',
      DeleteOne ''111111111111111111111111''] \<and>
   objects (fst (deleteHousingShare failing_env (request_on_A alice blank_body []) world_A)) =
     {''old2''}"
  apply (simp add: deleteHousingShare_def request_on_A_def failing_ids_valid Let_def
      findOne_log_call findOne_alice_A deletePhotos_world deleted_response_def)
  apply (simp add: listing_A_def failing_env_def destroyed_def log_call_def world_A_def)
  done

section \<open>Ownership\<close>

lemma not_owned_findOne: "not_owned i u w \<Longrightarrow> findOne i u w = None"
  by (auto simp: not_owned_def findOne_def find_None_iff)

lemma update_not_owned:
  "not_owned (param_id req) (userId req) w \<Longrightarrow>
   updateHousingShare e req w =
     (if \<not> ObjectId_isValid e (param_id req)
      then (w, Inl (AppError ''Invalid housing share ID'' 400 []))
      else if \<not> ObjectId_isValid e (userId req) then (w, Inl (CastError ''student''))
      else (log_call [FindOne (param_id req) (userId req)] w,
            Inl (AppError ''Housing share not found or unauthorized'' 404 [])))"
  by (simp add: updateHousingShare_def Let_def findOne_log_call not_owned_findOne)

lemma delete_not_owned:
  "not_owned (param_id req) (userId req) w \<Longrightarrow>
   deleteHousingShare e req w =
     (if \<not> ObjectId_isValid e (param_id req)
      then (w, Inl (AppError ''Invalid housing share ID'' 400 []))
      else if \<not> ObjectId_isValid e (userId req) then (w, Inl (CastError ''student''))
      else (log_call [FindOne (param_id req) (userId req)] w,
            Inl (AppError ''Housing share not found or unauthorized'' 404 [])))"
  by (simp add: deleteHousingShare_def Let_def findOne_log_call not_owned_findOne)

text \<open>
  C7. For a caller and a listing id such that the listing is absent or belongs to somebody
  else, update and delete answer the same in both cases (and the same as each other):
  \<^verbatim>\<open>findOne\<close> is scoped by the caller, so it finds nothing either way, and the answer
  is the 404 error \<^verbatim>\<open>Housing share not found or unauthorized\<close> (or, before any
  lookup, the error of an invalid id). Neither store changes.
\<close>

theorem non_owner_cannot_tell_foreign_from_absent:
  assumes "not_owned (param_id req) (userId req) w1"
      and "not_owned (param_id req) (userId req) w2"
  shows "snd (updateHousingShare e req w1) = snd (updateHousingShare e req w2) \<and>
         snd (deleteHousingShare e req w1) = snd (deleteHousingShare e req w2) \<and>
         snd (deleteHousingShare e req w1) = snd (updateHousingShare e req w1) \<and>
         snd (updateHousingShare e req w1) =
           Inl (if \<not> ObjectId_isValid e (param_id req)
                then AppError ''Invalid housing share ID'' 400 []
                else if \<not> ObjectId_isValid e (userId req) then CastError ''student''
                else AppError ''Housing share not found or unauthorized'' 404 []) \<and>
         shares (fst (updateHousingShare e req w1)) = shares w1 \<and>
         objects (fst (updateHousingShare e req w1)) = objects w1 \<and>
         shares (fst (deleteHousingShare e req w1)) = shares w1 \<and>
         objects (fst (deleteHousingShare e req w1)) = objects w1"
  using assms by (simp add: update_not_owned delete_not_owned log_call_def)

theorem non_owner_cannot_tell_foreign_from_absent_witness:
  "not_owned ''111111111111111111111111'' bob empty_world \<and>
   not_owned ''111111111111111111111111'' bob world_A \<and>
   findOne ''111111111111111111111111'' alice world_A = Some listing_A \<and>
   snd (updateHousingShare sample_env (request_on_A bob blank_body []) empty_world) =
     snd (updateHousingShare sample_env (request_on_A bob blank_body []) world_A) \<and>
   snd (deleteHousingShare sample_env (request_on_A bob blank_body []) empty_world) =
     snd (deleteHousingShare sample_env (request_on_A bob blank_body []) world_A) \<and>
   snd (updateHousingShare sample_env (request_on_A bob blank_body []) world_A) =
     Inl (AppError ''Housing share not found or unauthorized'' 404 [])"
proof -
  let ?req = "request_on_A bob blank_body []"
  have absent: "not_owned (param_id ?req) (userId ?req) empty_world"
    by (simp add: not_owned_def empty_world_def)
  have foreign: "not_owned (param_id ?req) (userId ?req) world_A"
    by (simp add: not_owned_def world_A_def listing_A_def request_on_A_def alice_def bob_def)
  have valid: "ObjectId_isValid sample_env (param_id ?req)"
    "ObjectId_isValid sample_env (userId ?req)"
    by (simp_all add: request_on_A_def sample_ids_valid)
  show ?thesis
    using non_owner_cannot_tell_foreign_from_absent [OF foreign absent, of sample_env]
      non_owner_cannot_tell_foreign_from_absent [OF absent foreign, of sample_env]
      absent foreign valid
    by (simp add: request_on_A_def findOne_alice_A)
qed

lemmas setter_defs =
  assign_def set_photos_def set_string_def set_preferences_def set_number_def set_student_def
  cast_number_def

lemmas schema_defs =
  schema_errors_def TUNISIAN_GOVERNORATES_def genders_def statuses_def

lemmas literal_defs =
  int_literal_def unsigned_literal_def is_digit_def

lemma upload_loop_shares: "shares (fst (upload_loop e fs acc w)) = shares w"
  by (induction fs arbitrary: acc w) (simp_all add: log_call_def split: option.splits)

lemma handlePhotoUpload_shares: "handlePhotoUpload e fs w = (w1, r) \<Longrightarrow> shares w1 = shares w"
  using upload_loop_shares [of e fs "[]" w] by (simp add: handlePhotoUpload_def)

lemma set_number_errs: "fst (set_number e n upd v d) = [] \<Longrightarrow> fst d = []"
  by (simp add: set_number_def split: option.splits)
lemma set_string_errs: "fst (set_string upd v d) = fst d"
  by (simp add: set_string_def split: option.splits)
lemma set_preferences_errs: "fst (set_preferences v d) = [] \<Longrightarrow> fst d = []"
  by (simp add: set_preferences_def split: option.splits prefs_in.splits)
lemma set_photos_errs: "fst (set_photos v d) = fst d"
  by (simp add: set_photos_def split: option.splits)

lemma set_number_student:
  "(\<And>r s. student (upd r s) = student s) \<Longrightarrow> student (snd (set_number e n upd v d)) = student (snd d)"
  by (simp add: set_number_def split: option.splits)
lemma set_string_student:
  "(\<And>x s. student (upd x s) = student s) \<Longrightarrow> student (snd (set_string upd v d)) = student (snd d)"
  by (simp add: set_string_def split: option.splits)
lemma set_preferences_student: "student (snd (set_preferences v d)) = student (snd d)"
  by (simp add: set_preferences_def split: option.splits prefs_in.splits)
lemma set_photos_student: "student (snd (set_photos v d)) = student (snd d)"
  by (simp add: set_photos_def split: option.splits)

lemma assign_student_after: "student (snd (assign e b d)) = student (snd (set_student e (b_student b) d))"
  by (simp add: assign_def set_number_student set_string_student set_preferences_student
      set_photos_student)

lemma assign_errs_student: "fst (assign e b d) = [] \<Longrightarrow> fst (set_student e (b_student b) d) = []"
  unfolding assign_def
  by (auto simp: set_photos_errs set_string_errs
      dest!: set_preferences_errs set_number_errs)

lemma assign_sets_owner:
  assumes "fst (assign e b d) = []" and "b_student b = Some u"
  shows "student (snd (assign e b d)) = u"
proof -
  have "fst (set_student e (Some u) d) = []"
    using assign_errs_student [OF assms(1)] assms(2) by simp
  then have "student (snd (set_student e (Some u) d)) = u"
    by (auto simp: set_student_def split: if_splits)
  then show ?thesis using assms(2) by (simp add: assign_student_after)
qed

lemma save_new_cases:
  "save_new d w = (w', Inr s) \<Longrightarrow>
     fst d = [] \<and> s = snd d \<and> shares w' = shares w @ [s] \<and> objects w' = objects w \<and>
     trace w' = trace w @ [Save (sid s)]"
  by (auto simp: save_new_def Let_def log_call_def split: if_splits)

lemma sample_create_run:
  "createHousingShare sample_env create_request empty_world =
   (empty_world\<lparr>shares := [\<lparr>sid = ''c0ffee000000000000000000'', student = alice,
                              governorate = ''Ariana'', currentOccupants = 2,
                              totalCapacity = 4, pricePerPerson = 300,
                              photos = [\<lparr>url = ''https://cdn/new1'', publicId = ''new1''\<rparr>,
                                        \<lparr>url = ''https://cdn/new2'', publicId = ''new2''\<rparr>],
                              gender = ''any'', status = ''available'', createdAt = 5,
                              updatedAt = 5\<rparr>],
                objects := {''new1'', ''new2''},
                trace := [Upload ''uploads/a'', Unlink ''uploads/a'', Upload ''uploads/c'',
                          Unlink ''uploads/c'', Save ''c0ffee000000000000000000''],
                oid_counter := 1\<rparr>,
    Inr (Created \<lparr>sid = ''c0ffee000000000000000000'', student = alice,
                  governorate = ''Ariana'', currentOccupants = 2,
                  totalCapacity = 4, pricePerPerson = 300,
                  photos = [\<lparr>url = ''https://cdn/new1'', publicId = ''new1''\<rparr>,
                            \<lparr>url = ''https://cdn/new2'', publicId = ''new2''\<rparr>],
                  gender = ''any'', status = ''available'', createdAt = 5,
                  updatedAt = 5\<rparr>))"
  apply (simp add: createHousingShare_def validationResult_def create_request_def)
  apply (simp add: new_listing_body_def parse_preferences_def
      includes_gender_def gender_of_def genders_def)
  apply (simp add: handlePhotoUpload_def sample_upload_a sample_upload_c log_call_def)
  apply (simp add: save_new_def new_HousingShare_def missing_required_def setter_defs
      schema_defs Let_def log_call_def blank_share_def sample_ids_valid)
  apply (simp add: empty_world_def sample_env_def)
  apply auto
  done

lemma post_route_create_request:
  "validateCreateShare sample_env new_listing_body = [] \<and>
   post_route sample_env create_request empty_world =
     createHousingShare sample_env create_request empty_world"
proof -
  have route: "validateCreateShare sample_env new_listing_body = []"
    by (simp add: validateCreateShare_def new_listing_body_def check_governorate_def trim_def
        is_space_def route_governorates_def check_currentOccupants_def check_totalCapacity_def
        isInt_def js_le_def to_number_def check_pricePerPerson_def isFloat_min0_def
        check_gender_def includes_gender_def gender_of_def genders_def)
  have same: "sanitize_fields new_listing_body = new_listing_body"
    by (simp add: sanitize_fields_def new_listing_body_def trim_def is_space_def)
  show ?thesis
    using route same by (simp add: post_route_def create_request_def max_files_def)
qed

text \<open>
  C10. A create that succeeds persists a record whose owner (\<^verbatim>\<open>student\<close>) is the
  authenticated caller, whatever \<^verbatim>\<open>student\<close> the body names: the constructor's argument
  puts \<^verbatim>\<open>student: req.user.userId\<close> after the spread body. The new record is the one
  appended to the collection.
\<close>

theorem created_listing_is_owned_by_caller:
  assumes run: "createHousingShare e req w = (w', Inr (Created s))"
  shows "student s = userId req \<and> shares w' = shares w @ [s]"
proof -
  from run obtain prefs w1 phs where
    up: "(if files req \<noteq> [] then handlePhotoUpload e (files req) w else (w, Inr [])) = (w1, Inr phs)"
    and sv: "save_new (new_HousingShare e w1
               ((body req)\<lparr>b_preferences := prefs, b_student := Some (userId req),
                            b_photos := Some phs\<rparr>)) w1 = (w', Inr s)"
    by (auto simp: createHousingShare_def split: if_splits sum.splits prod.splits)
  let ?b = "(body req)\<lparr>b_preferences := prefs, b_student := Some (userId req), b_photos := Some phs\<rparr>"
  let ?d = "assign e ?b ([], blank_share e w1)"
  from save_new_cases [OF sv]
  have errs: "fst (new_HousingShare e w1 ?b) = []" and s: "s = snd (new_HousingShare e w1 ?b)"
    and sh: "shares w' = shares w1 @ [s]" by simp_all
  have "fst ?d = []" using errs by (simp add: new_HousingShare_def Let_def)
  then have "student (snd ?d) = userId req"
    by (rule assign_sets_owner) simp
  then have owner: "student s = userId req" using s by (simp add: new_HousingShare_def Let_def)
  have "shares w1 = shares w"
    using up handlePhotoUpload_shares by (auto split: if_splits)
  then show ?thesis using owner sh by simp
qed

theorem created_listing_is_owned_by_caller_witness:
  "b_student (body create_request) = Some bob \<and> userId create_request = alice \<and>
   alice \<noteq> bob \<and>
   (\<exists>s. snd (createHousingShare sample_env create_request empty_world) = Inr (Created s) \<and>
        student s = alice \<and>
        shares (fst (createHousingShare sample_env create_request empty_world)) = [s])"
proof -
  have differ: "alice \<noteq> bob" by (simp add: alice_def bob_def)
  have req: "b_student (body create_request) = Some bob \<and> userId create_request = alice"
    by (simp add: create_request_def new_listing_body_def)
  show ?thesis
    using created_listing_is_owned_by_caller [OF sample_create_run] differ req
    by (simp add: sample_create_run)
qed

text \<open>
  C6, at its failing input. Alice owns listing A and sends an update whose body names Bob
  as \<^verbatim>\<open>student\<close>: \<^verbatim>\<open>Object.assign(share, req.body)\<close> overwrites the owner and the
  record is saved as Bob's.
\<close>

theorem update_reassigns_owner:
  "updateHousingShare sample_env
     (request_on_A alice (blank_body\<lparr>b_student := Some bob\<rparr>) []) world_A =
   (world_A\<lparr>shares := [listing_A\<lparr>student := bob, updatedAt := 9\<rparr>],
            trace := [FindOne ''111111111111111111111111'' alice,
                      Save ''111111111111111111111111'']\<rparr>,
    Inr (OkShare (listing_A\<lparr>student := bob, updatedAt := 9\<rparr>))) \<and>
   student listing_A = alice \<and> alice \<noteq> bob"
proof -
  have run: "updateHousingShare sample_env
     (request_on_A alice (blank_body\<lparr>b_student := Some bob\<rparr>) []) world_A =
   (world_A\<lparr>shares := [listing_A\<lparr>student := bob, updatedAt := 9\<rparr>],
            trace := [FindOne ''111111111111111111111111'' alice,
                      Save ''111111111111111111111111'']\<rparr>,
    Inr (OkShare (listing_A\<lparr>student := bob, updatedAt := 9\<rparr>)))"
    apply (simp add: updateHousingShare_def request_on_A_def
        sample_ids_valid Let_def findOne_log_call findOne_alice_A)
    apply (simp add: blank_body_def validate_preferences_def truthy_preferences_def)
    apply (simp add: save_existing_def setter_defs schema_defs Let_def log_call_def
        sample_ids_valid listing_A_def world_A_def)
    done
  have owner: "student listing_A = alice" by (simp add: listing_A_def)
  have differ: "alice \<noteq> bob" by (simp add: alice_def bob_def)
  show ?thesis using run owner differ by blast
qed

section \<open>Listing with filters and pages\<close>

lemma inverted_bounds_match_nothing:
  "m_gte m = Some (Some x) \<Longrightarrow> m_lte m = Some (Some y) \<Longrightarrow> y < x \<Longrightarrow> \<not> matches m s"
  by (auto simp: matches_def)

text \<open>
  C8. A list request that gives both price bounds, each a number, with the lower bound
  above the upper one: the handler succeeds with no items, total 0 and 0 pages. The
  custom validator of the route's \<^verbatim>\<open>maxPrice\<close> chain does throw on such a request, but
  \<^verbatim>\<open>getHousingShares\<close> never reads \<^verbatim>\<open>validationResult\<close>.
\<close>

theorem inverted_price_range_lists_nothing:
  assumes lo: "q_minPrice q = Some lo" "lo \<noteq> []" "js_Number e lo = Some x"
      and hi: "q_maxPrice q = Some hi" "hi \<noteq> []" "js_Number e hi = Some y"
      and inverted: "y < x"
  shows "getHousingShares e q w =
           (log_call [Find, CountDocuments] w,
            Inr (OkPage \<lparr>items = [], total = 0, pages = 0,
                         currentPage = fst (validatePagination e (q_page q) (q_limit q))\<rparr>)) \<and>
         maxPrice_custom_throws e q"
proof -
  let ?m = "build_query e q"
  have gte: "m_gte ?m = Some (Some x)" and lte: "m_lte ?m = Some (Some y)"
    using lo hi by (simp_all add: build_query_def truthy_def number_of_param_def)
  have none: "filter (matches ?m) (shares w) = []"
    using inverted_bounds_match_nothing [OF gte lte inverted]
    by (simp add: filter_empty_conv)
  have nocast: "\<not> query_cast_error ?m"
    using gte lte by (simp add: query_cast_error_def)
  have throws: "maxPrice_custom_throws e q"
    using lo hi inverted by (simp add: maxPrice_custom_throws_def)
  show ?thesis
    using nocast none throws by (simp add: getHousingShares_def Let_def)
qed

theorem inverted_price_range_lists_nothing_witness:
  "getHousingShares sample_env
     (no_filter\<lparr>q_minPrice := Some ''500'', q_maxPrice := Some ''100''\<rparr>) world_A =
     (log_call [Find, CountDocuments] world_A,
      Inr (OkPage \<lparr>items = [], total = 0, pages = 0, currentPage = 1\<rparr>)) \<and>
   pricePerPerson listing_A = 300 \<and> shares world_A = [listing_A]"
proof -
  let ?q = "no_filter\<lparr>q_minPrice := Some ''500'', q_maxPrice := Some ''100''\<rparr>"
  have n500: "js_Number sample_env ''500'' = Some 500"
    by (simp add: sample_env_def decimal_Number_def literal_defs)
  have n100: "js_Number sample_env ''100'' = Some 100"
    by (simp add: sample_env_def decimal_Number_def literal_defs)
  have page: "fst (validatePagination sample_env (q_page ?q) (q_limit ?q)) = 1"
    by (simp add: validatePagination_def parseInt_or_def no_filter_def)
  show ?thesis
    using inverted_price_range_lists_nothing [of ?q "''500''" sample_env 500 "''100''" 100 world_A]
      n500 n100 page
    by (simp add: no_filter_def world_A_def listing_A_def)
qed

lemma validatePagination_clamps:
  "validatePagination e page limit =
     (case parsed e page of None \<Rightarrow> 1 | Some n \<Rightarrow> if n < 1 then 1 else n,
      case parsed e limit of None \<Rightarrow> 10 | Some n \<Rightarrow> if n < 1 \<or> 100 < n then 10 else n)"
  by (simp add: validatePagination_def parseInt_or_def parsed_def Let_def split: option.splits)

lemma getHousingShares_page:
  assumes "getHousingShares e q w = (w', Inr (OkPage r))"
  shows "currentPage r = fst (validatePagination e (q_page q) (q_limit q))"
    and "items r =
           take (nat (snd (validatePagination e (q_page q) (q_limit q))))
             (drop (nat ((fst (validatePagination e (q_page q) (q_limit q)) - 1) *
                         snd (validatePagination e (q_page q) (q_limit q))))
                (sort_key (\<lambda>s. - int (createdAt s))
                   (filter (matches (build_query e q)) (shares w))))"
  using assms by (auto simp: getHousingShares_def Let_def split: if_splits)

text \<open>
  C9. \<^verbatim>\<open>validatePagination\<close> clamps: a page that does not parse or is below 1 becomes 1,
  a limit that does not parse or is outside 1..100 becomes 10. A list request that
  succeeds returns the clamped page as \<^verbatim>\<open>currentPage\<close>, and its items are cut with
  the clamped values, so at most 100 of them.
\<close>

theorem pagination_is_clamped:
  "validatePagination e page limit =
     (case parsed e page of None \<Rightarrow> 1 | Some n \<Rightarrow> if n < 1 then 1 else n,
      case parsed e limit of None \<Rightarrow> 10 | Some n \<Rightarrow> if n < 1 \<or> 100 < n then 10 else n) \<and>
   (getHousingShares e q w = (w', Inr (OkPage r)) \<longrightarrow>
      currentPage r =
        (case parsed e (q_page q) of None \<Rightarrow> 1 | Some n \<Rightarrow> if n < 1 then 1 else n) \<and>
      items r =
        take (nat (snd (validatePagination e (q_page q) (q_limit q))))
          (drop (nat ((currentPage r - 1) * snd (validatePagination e (q_page q) (q_limit q))))
             (sort_key (\<lambda>s. - int (createdAt s))
                (filter (matches (build_query e q)) (shares w)))) \<and>
      length (items r) \<le> 100)"
proof (intro conjI impI)
  show "validatePagination e page limit =
     (case parsed e page of None \<Rightarrow> 1 | Some n \<Rightarrow> if n < 1 then 1 else n,
      case parsed e limit of None \<Rightarrow> 10 | Some n \<Rightarrow> if n < 1 \<or> 100 < n then 10 else n)"
    by (rule validatePagination_clamps)
next
  assume run: "getHousingShares e q w = (w', Inr (OkPage r))"
  have cp: "currentPage r = fst (validatePagination e (q_page q) (q_limit q))"
    by (rule getHousingShares_page(1) [OF run])
  show "currentPage r =
        (case parsed e (q_page q) of None \<Rightarrow> 1 | Some n \<Rightarrow> if n < 1 then 1 else n)"
    unfolding cp validatePagination_clamps by simp
  show it: "items r =
        take (nat (snd (validatePagination e (q_page q) (q_limit q))))
          (drop (nat ((currentPage r - 1) * snd (validatePagination e (q_page q) (q_limit q))))
             (sort_key (\<lambda>s. - int (createdAt s))
                (filter (matches (build_query e q)) (shares w))))"
    unfolding cp by (rule getHousingShares_page(2) [OF run])
  have "snd (validatePagination e (q_page q) (q_limit q)) \<le> 100"
    unfolding validatePagination_clamps by (simp split: option.splits)
  then show "length (items r) \<le> 100"
    by (subst it) simp
qed

lemma parse_samples:
  "js_parseInt sample_env ''-3'' = Some (-3)" "js_parseInt sample_env ''1000'' = Some 1000"
  by (simp_all add: sample_env_def literal_defs)

theorem pagination_is_clamped_witness:
  "validatePagination sample_env (Some ''-3'') (Some ''1000'') = (1, 10) \<and>
   getHousingShares sample_env (no_filter\<lparr>q_page := Some ''-3'', q_limit := Some ''1000''\<rparr>)
     world_A =
     (log_call [Find, CountDocuments] world_A,
      Inr (OkPage \<lparr>items = [listing_A], total = 1, pages = 1, currentPage = 1\<rparr>))"
proof -
  let ?q = "no_filter\<lparr>q_page := Some ''-3'', q_limit := Some ''1000''\<rparr>"
  let ?r = "\<lparr>items = [listing_A], total = 1, pages = 1, currentPage = 1\<rparr>"
  have vp: "validatePagination sample_env (Some ''-3'') (Some ''1000'') = (1, 10)"
    by (simp add: validatePagination_clamps parsed_def parse_samples)
  have ceil: "\<lceil>(1::rat) / 10\<rceil> = 1" by (simp add: ceiling_eq_iff)
  have run: "getHousingShares sample_env ?q world_A =
     (log_call [Find, CountDocuments] world_A, Inr (OkPage ?r))"
    by (simp add: getHousingShares_def no_filter_def vp build_query_def truthy_def
        number_of_param_def query_cast_error_def matches_def world_A_def Let_def ceil)
  have pages: "q_page ?q = Some ''-3''" "q_limit ?q = Some ''1000''"
    by (simp_all add: no_filter_def)
  from pagination_is_clamped
    [of sample_env "Some ''-3''" "Some ''1000''" ?q world_A
      "log_call [Find, CountDocuments] world_A" ?r]
  have "validatePagination sample_env (Some ''-3'') (Some ''1000'') = (1, 10) \<and>
        currentPage ?r = 1 \<and> length (items ?r) \<le> 100"
    using run by (simp add: pages parsed_def parse_samples)
  then show ?thesis using run by simp
qed

section \<open>Validation and the stores\<close>

text \<open>
  The create handler checks before it touches a store: a request with validation errors,
  or whose gender preference is not one of the three values, is answered with a 400
  error and the world is unchanged.
\<close>

lemma create_rejects_before_any_call:
  "validation req \<noteq> [] \<Longrightarrow>
   createHousingShare e req w = (w, Inl (AppError ''Validation error'' 400 (validation req)))"
  by (simp add: createHousingShare_def validationResult_def)

lemma create_rejects_gender_before_any_call:
  "validation req = [] \<Longrightarrow> parse_preferences e (b_preferences (body req)) = Inr prefs \<Longrightarrow>
   \<not> includes_gender (gender_of prefs) \<Longrightarrow>
   createHousingShare e req w = (w, Inl (AppError ''Invalid gender preference'' 400 []))"
  by (simp add: createHousingShare_def validationResult_def)

text \<open>
  Behind the POST route a JSON body whose \<^verbatim>\<open>totalCapacity\<close> does not exceed its
  \<^verbatim>\<open>currentOccupants\<close> is turned away before any call, with the capacity error among the reported
  ones.
\<close>

lemma post_rejects_capacity_not_above_occupants:
  assumes "length (files req) \<le> max_files"
      and "b_totalCapacity (body req) = Some (JNum t)"
      and "b_currentOccupants (body req) = Some (JNum c)"
      and "t \<le> c"
  shows "post_route e req w =
           (w, Inl (AppError ''Validation error'' 400 (validateCreateShare e (body req)))) \<and>
         (''totalCapacity'', ''Total capacity must be greater than current occupants'')
           \<in> set (validateCreateShare e (body req))"
proof -
  have err: "(''totalCapacity'', ''Total capacity must be greater than current occupants'')
           \<in> set (validateCreateShare e (body req))"
    using assms(2-4)
    by (simp add: validateCreateShare_def check_totalCapacity_def js_le_def to_number_def)
  then have "validateCreateShare e (body req) \<noteq> []" by auto
  then show ?thesis
    using assms(1) err by (simp add: post_route_def createHousingShare_def validationResult_def)
qed

text \<open>
  C3, at its failing input. Listing A is stored with \<^verbatim>\<open>totalCapacity\<close> 4. Its owner sends
  an update with \<^verbatim>\<open>currentOccupants\<close> 5 and nothing else. The chains of the PUT route
  report nothing (the chain of \<^verbatim>\<open>totalCapacity\<close> is skipped, its field being undefined),
  the handler does not read them anyway, and the record is saved with 5 occupants for a
  capacity of 4.
\<close>

theorem update_accepts_occupants_above_stored_capacity:
  "put_route sample_env
     (request_on_A alice (blank_body\<lparr>b_currentOccupants := Some (JNum 5)\<rparr>) []) world_A =
   (world_A\<lparr>shares := [listing_A\<lparr>currentOccupants := 5, updatedAt := 9\<rparr>],
            trace := [FindOne ''111111111111111111111111'' alice,
                      Save ''111111111111111111111111'']\<rparr>,
    Inr (OkShare (listing_A\<lparr>currentOccupants := 5, updatedAt := 9\<rparr>))) \<and>
   totalCapacity listing_A = 4 \<and>
   validateUpdateShare sample_env ''111111111111111111111111''
     (blank_body\<lparr>b_currentOccupants := Some (JNum 5)\<rparr>) = []"
proof -
  have route: "validateUpdateShare sample_env ''111111111111111111111111''
     (blank_body\<lparr>b_currentOccupants := Some (JNum 5)\<rparr>) = []"
    by (simp add: validateUpdateShare_def validateCreateShare_def blank_body_def isMongoId_def
        is_hex_def is_digit_def check_currentOccupants_def isInt_def gender_of_def)
  have run: "put_route sample_env
     (request_on_A alice (blank_body\<lparr>b_currentOccupants := Some (JNum 5)\<rparr>) []) world_A =
   (world_A\<lparr>shares := [listing_A\<lparr>currentOccupants := 5, updatedAt := 9\<rparr>],
            trace := [FindOne ''111111111111111111111111'' alice,
                      Save ''111111111111111111111111'']\<rparr>,
    Inr (OkShare (listing_A\<lparr>currentOccupants := 5, updatedAt := 9\<rparr>)))"
    apply (simp add: put_route_def max_files_def updateHousingShare_def request_on_A_def
        sample_ids_valid Let_def findOne_log_call findOne_alice_A)
    apply (simp add: sanitize_fields_def blank_body_def validate_preferences_def
        truthy_preferences_def)
    apply (simp add: save_existing_def setter_defs schema_defs Let_def log_call_def
        listing_A_def world_A_def)
    done
  show ?thesis using route run by (simp add: listing_A_def)
qed

text \<open>
  C4, at its failing input. The owner of listing A sends an update with one new file and
  the gender preference \<^verbatim>\<open>robot\<close>. The handler answers 400
  \<^verbatim>\<open>Invalid gender preference\<close>, but only after it has looked the record up,
  destroyed both stored photos and uploaded the new file.
\<close>

theorem update_rejects_gender_after_replacing_media:
  "put_route sample_env
     (request_on_A alice (blank_body\<lparr>b_preferences := Some (PObj (Some ''robot''))\<rparr>)
        [''uploads/a'']) world_A =
   (world_A\<lparr>objects := {''new1''},
            trace := [FindOne ''111111111111111111111111'' alice, Destroy ''old1'',
                      Destroy ''old2'', Upload ''uploads/a'', Unlink ''uploads/a'']\<rparr>,
    Inl (AppError ''Invalid gender preference'' 400 []))"
  apply (simp add: put_route_def max_files_def updateHousingShare_def request_on_A_def
      sample_ids_valid Let_def findOne_log_call findOne_alice_A)
  apply (simp add: replace_photos_def handlePhotoUpload_def listing_A_def sample_env_def
      log_call_def world_A_def)
  apply (simp add: sanitize_fields_def blank_body_def validate_preferences_def
      truthy_preferences_def parse_preferences_def includes_gender_def gender_of_def genders_def)
  done

text \<open>
  On create, the capacity check of the route compares the raw body values with
  \<^verbatim>\<open><=\<close>. Two form strings (the fields of a multipart request) compare by code
  units: a capacity of \<^verbatim>\<open>"3"\<close> for \<^verbatim>\<open>"10"\<close> occupants passes and is stored, the
  schema casting both to numbers.
\<close>

lemma create_accepts_capacity_below_occupants_as_strings:
  "post_route sample_env
     \<lparr>userId = alice, param_id = [],
      body = new_listing_body\<lparr>b_currentOccupants := Some (JStr ''10''),
                              b_totalCapacity := Some (JStr ''3''),
                              b_pricePerPerson := Some (JStr ''300'')\<rparr>,
      files = [], validation = []\<rparr> empty_world =
   (empty_world\<lparr>shares := [\<lparr>sid = ''c0ffee000000000000000000'', student = alice,
                              governorate = ''Ariana'', currentOccupants = 10,
                              totalCapacity = 3, pricePerPerson = 300, photos = [],
                              gender = ''any'', status = ''available'', createdAt = 5,
                              updatedAt = 5\<rparr>],
                trace := [Save ''c0ffee000000000000000000''], oid_counter := 1\<rparr>,
    Inr (Created \<lparr>sid = ''c0ffee000000000000000000'', student = alice,
                  governorate = ''Ariana'', currentOccupants = 10,
                  totalCapacity = 3, pricePerPerson = 300, photos = [],
                  gender = ''any'', status = ''available'', createdAt = 5,
                  updatedAt = 5\<rparr>))"
proof -
  have route: "validateCreateShare sample_env
      (new_listing_body\<lparr>b_currentOccupants := Some (JStr ''10''),
                         b_totalCapacity := Some (JStr ''3''),
                         b_pricePerPerson := Some (JStr ''300'')\<rparr>) = []"
    by (simp add: validateCreateShare_def new_listing_body_def check_governorate_def trim_def
        is_space_def route_governorates_def check_currentOccupants_def check_totalCapacity_def
        isInt_def literal_defs js_le_def check_pricePerPerson_def isFloat_min0_def
        check_gender_def includes_gender_def gender_of_def genders_def sample_env_def)
  have n10: "js_Number sample_env ''10'' = Some 10"
    by (simp add: sample_env_def decimal_Number_def literal_defs)
  have n3: "js_Number sample_env ''3'' = Some 3"
    by (simp add: sample_env_def decimal_Number_def literal_defs)
  have n300: "js_Number sample_env ''300'' = Some 300"
    by (simp add: sample_env_def decimal_Number_def literal_defs)
  show ?thesis
    apply (simp add: post_route_def max_files_def createHousingShare_def validationResult_def route)
    apply (simp add: sanitize_fields_def new_listing_body_def parse_preferences_def
      includes_gender_def gender_of_def genders_def trim_def is_space_def)
    apply (simp add: save_new_def new_HousingShare_def missing_required_def setter_defs n10 n3
        n300 schema_defs Let_def log_call_def blank_share_def sample_ids_valid)
    apply (simp add: empty_world_def sample_env_def)
    done
qed

end
